theory Spec2Isabelle
  imports Main "HOL-Library.Multiset"
begin

section \<open>The parsed document\<close>

text \<open>
  The builder (\<^verbatim>\<open>build.js\<close>, in its version with the operator resolver; the version
  without it has the same validity filter, version check, \<^verbatim>\<open>add\<close> and comparator)
  walks the tree that the XML parser returns. A property of that tree is absent
  (\<^verbatim>\<open>undefined\<close>), or a string, or a number (the parser turns numeric text into a
  number), or an object or array (an element with attributes or children, a repeated
  element). A number and an object are carried with the text that \<^verbatim>\<open>String\<close> gives
  for them. In a condition \<^verbatim>\<open>undefined\<close>, the empty string and the number zero are
  false; everything else is true.
\<close>

datatype leaf = Absent | Text string | Number string | Object string

definition truthy :: "leaf \<Rightarrow> bool" where
  "truthy v =
     (case v of Absent \<Rightarrow> False | Text t \<Rightarrow> t \<noteq> [] | Number t \<Rightarrow> t \<noteq> ''0''
      | Object t \<Rightarrow> True)"

text \<open>\<^verbatim>\<open>a || b\<close> on leaves: \<open>a\<close> when it is true in a condition, else \<open>b\<close>.\<close>

definition js_or :: "leaf \<Rightarrow> leaf \<Rightarrow> leaf" where
  "js_or a b = (if truthy a then a else b)"

text \<open>\<^verbatim>\<open>String(v)\<close> for a leaf that is present.\<close>

definition text_of :: "leaf \<Rightarrow> string" where
  "text_of v = (case v of Absent \<Rightarrow> [] | Text t \<Rightarrow> t | Number t \<Rightarrow> t | Object t \<Rightarrow> t)"

text \<open>\<^verbatim>\<open>String(v || "")\<close>: the text of a leaf, the empty string when it is false.\<close>

definition str_of :: "leaf \<Rightarrow> string" where
  "str_of v = (if truthy v then text_of v else [])"

record operating_period =
  op_StartDate :: leaf
  op_Start :: leaf
  op_EndDate :: leaf
  op_End :: leaf

record valid_between =
  vb_FromDate :: leaf
  vb_StartDate :: leaf
  vb_Start :: leaf
  vb_ToDate :: leaf
  vb_EndDate :: leaf
  vb_End :: leaf

text \<open>The empty object \<^verbatim>\<open>{}\<close> that replaces a missing period: every property absent.\<close>

definition no_operating_period :: operating_period where
  "no_operating_period =
     \<lparr>op_StartDate = Absent, op_Start = Absent, op_EndDate = Absent, op_End = Absent\<rparr>"

definition no_valid_between :: valid_between where
  "no_valid_between =
     \<lparr>vb_FromDate = Absent, vb_StartDate = Absent, vb_Start = Absent,
      vb_ToDate = Absent, vb_EndDate = Absent, vb_End = Absent\<rparr>"

section \<open>Validity filter\<close>

text \<open>
  A JavaScript \<^verbatim>\<open>Date\<close> holds a time value in milliseconds since the epoch, or
  \<^verbatim>\<open>NaN\<close> (an invalid date). \<^verbatim>\<open>new Date(text)\<close> is the runtime's date parser; it is
  the parameter \<open>newDate\<close>, with \<open>None\<close> for an invalid date.

  \<^verbatim>\<open>
  const parseISO = (s) => {
    if (!s) return null;
    const d = new Date(String(s));
    return isNaN(+d) ? null : d;
  };
  \<close>
  so \<open>parseISO\<close> returns \<open>None\<close> (\<^verbatim>\<open>null\<close>) or a valid time value.
\<close>

datatype jsdate = Date int | InvalidDate

definition parseISO :: "(string \<Rightarrow> int option) \<Rightarrow> leaf \<Rightarrow> int option" where
  "parseISO newDate s = (if \<not> truthy s then None else newDate (text_of s))"

text \<open>
  \<^verbatim>\<open>t < a\<close> and \<^verbatim>\<open>t > b\<close> on dates compare the time values; a comparison with
  \<^verbatim>\<open>NaN\<close> is false.
\<close>

fun date_lt :: "jsdate \<Rightarrow> int \<Rightarrow> bool" where
  "date_lt (Date t) a = (t < a)"
| "date_lt InvalidDate a = False"

fun date_gt :: "jsdate \<Rightarrow> int \<Rightarrow> bool" where
  "date_gt (Date t) b = (t > b)"
| "date_gt InvalidDate b = False"

text \<open>
  \<^verbatim>\<open>const inRange = (t, a, b) => !(a && t < a) && !(b && t > b);\<close>
  where \<open>a\<close> and \<open>b\<close> are \<^verbatim>\<open>null\<close> or a date (a date object is true in a condition).
\<close>

definition inRange :: "jsdate \<Rightarrow> int option \<Rightarrow> int option \<Rightarrow> bool" where
  "inRange t a b =
     (\<not> (case a of None \<Rightarrow> False | Some x \<Rightarrow> date_lt t x) \<and>
      \<not> (case b of None \<Rightarrow> False | Some y \<Rightarrow> date_gt t y))"

text \<open>\<^verbatim>\<open>x || y\<close> on the results of \<open>parseISO\<close>: \<^verbatim>\<open>null\<close> is false, a date is true.\<close>

definition date_or :: "int option \<Rightarrow> int option \<Rightarrow> int option" where
  "date_or x y = (case x of None \<Rightarrow> y | Some _ \<Rightarrow> x)"

text \<open>
  The sub-expressions of \<^verbatim>\<open>serviceIsActiveToday\<close>, for a period \<open>op\<close>
  (\<^verbatim>\<open>service?.OperatingPeriod || {}\<close>, or \<^verbatim>\<open>txcRoot?.OperatingPeriod || {}\<close>) and
  the document's \<^verbatim>\<open>ValidBetween\<close>:
  \<^verbatim>\<open>
  parseISO(op.StartDate || op.Start)
  parseISO(op.EndDate || op.End)
  parseISO(vb.FromDate || vb.StartDate || vb.Start)
  parseISO(vb.ToDate || vb.EndDate || vb.End)
  \<close>
\<close>

definition periodStart :: "(string \<Rightarrow> int option) \<Rightarrow> operating_period \<Rightarrow> int option" where
  "periodStart newDate op = parseISO newDate (js_or (op_StartDate op) (op_Start op))"

definition periodEnd :: "(string \<Rightarrow> int option) \<Rightarrow> operating_period \<Rightarrow> int option" where
  "periodEnd newDate op = parseISO newDate (js_or (op_EndDate op) (op_End op))"

definition validFrom :: "(string \<Rightarrow> int option) \<Rightarrow> valid_between \<Rightarrow> int option" where
  "validFrom newDate vb =
     parseISO newDate (js_or (js_or (vb_FromDate vb) (vb_StartDate vb)) (vb_Start vb))"

definition validTo :: "(string \<Rightarrow> int option) \<Rightarrow> valid_between \<Rightarrow> int option" where
  "validTo newDate vb =
     parseISO newDate (js_or (js_or (vb_ToDate vb) (vb_EndDate vb)) (vb_End vb))"

text \<open>
  \<^verbatim>\<open>
  function serviceIsActiveToday(service, txcRoot) {
    const op = service?.OperatingPeriod || {};
    const start = parseISO(op.StartDate || op.Start);
    const end = parseISO(op.EndDate || op.End);
    const vb = txcRoot?.ValidBetween || {};
    const rop = txcRoot?.OperatingPeriod || {};
    const s = start || parseISO(vb.FromDate || vb.StartDate || vb.Start)
                    || parseISO(rop.StartDate || rop.Start);
    const e = end || parseISO(vb.ToDate || vb.EndDate || vb.End)
                  || parseISO(rop.EndDate || rop.End);
    if (!s && !e) return true; // assume valid if no dates
    return inRange(TODAY, s, e);
  }
  \<close>
  The function reads the service's \<^verbatim>\<open>OperatingPeriod\<close> and the document's
  \<^verbatim>\<open>ValidBetween\<close> and \<^verbatim>\<open>OperatingPeriod\<close>; these three are its arguments here
  (\<open>None\<close> when the property is absent), with the reference date \<^verbatim>\<open>TODAY\<close>.
  \<open>periodOrEmpty\<close> and \<open>validOrEmpty\<close> are \<^verbatim>\<open>|| {}\<close>; \<open>boundStart\<close> and \<open>boundEnd\<close>
  are the constants \<^verbatim>\<open>s\<close> and \<^verbatim>\<open>e\<close>.
\<close>

definition periodOrEmpty :: "operating_period option \<Rightarrow> operating_period" where
  "periodOrEmpty p = (case p of None \<Rightarrow> no_operating_period | Some op \<Rightarrow> op)"

definition validOrEmpty :: "valid_between option \<Rightarrow> valid_between" where
  "validOrEmpty p = (case p of None \<Rightarrow> no_valid_between | Some vb \<Rightarrow> vb)"

definition boundStart ::
  "(string \<Rightarrow> int option) \<Rightarrow> operating_period option \<Rightarrow> valid_between option \<Rightarrow>
   operating_period option \<Rightarrow> int option" where
  "boundStart newDate sop rvb rop =
     (let op = periodOrEmpty sop; vb = validOrEmpty rvb; rp = periodOrEmpty rop
      in date_or (date_or (periodStart newDate op) (validFrom newDate vb))
           (periodStart newDate rp))"

definition boundEnd ::
  "(string \<Rightarrow> int option) \<Rightarrow> operating_period option \<Rightarrow> valid_between option \<Rightarrow>
   operating_period option \<Rightarrow> int option" where
  "boundEnd newDate sop rvb rop =
     (let op = periodOrEmpty sop; vb = validOrEmpty rvb; rp = periodOrEmpty rop
      in date_or (date_or (periodEnd newDate op) (validTo newDate vb))
           (periodEnd newDate rp))"

definition serviceIsActiveToday ::
  "(string \<Rightarrow> int option) \<Rightarrow> jsdate \<Rightarrow> operating_period option \<Rightarrow>
   valid_between option \<Rightarrow> operating_period option \<Rightarrow> bool" where
  "serviceIsActiveToday newDate today sop rvb rop =
     (let s = boundStart newDate sop rvb rop;
          e = boundEnd newDate sop rvb rop
      in if s = None \<and> e = None then True else inRange today s e)"

section \<open>Strings and insertion-ordered maps\<close>

text \<open>
  \<^verbatim>\<open>String.prototype.trim\<close> removes white space and line terminators at both ends. A
  character of a string is a code unit below 256; among these the white space and line
  terminators are the tab, the line feed, the vertical tab, the form feed, the carriage
  return, the space and the no-break space (160).
\<close>

definition is_ws :: "char \<Rightarrow> bool" where
  "is_ws c = (of_char c \<in> {9, 10, 11, 12, 13, 32, 160 :: nat})"

definition trim :: "string \<Rightarrow> string" where
  "trim s = rev (dropWhile is_ws (rev (dropWhile is_ws s)))"

text \<open>\<^verbatim>\<open>s.startsWith(k)\<close>\<close>

definition startsWith :: "string \<Rightarrow> string \<Rightarrow> bool" where
  "startsWith s k = (take (length k) s = k)"

text \<open>
  A JavaScript \<^verbatim>\<open>Map\<close> keeps its keys in insertion order, and \<^verbatim>\<open>set\<close> on a key
  that is present keeps the key's place. It is an association list with distinct keys:
  \<open>map_of\<close> is \<^verbatim>\<open>get\<close>, \<open>map_set\<close> is \<^verbatim>\<open>set\<close>. A \<^verbatim>\<open>Set\<close> is a list without
  repetition, \<open>set_add\<close> is \<^verbatim>\<open>add\<close>.
\<close>

fun map_set :: "('k \<times> 'v) list \<Rightarrow> 'k \<Rightarrow> 'v \<Rightarrow> ('k \<times> 'v) list" where
  "map_set [] k v = [(k, v)]"
| "map_set ((k', v') # m) k v =
     (if k' = k then (k, v) # m else (k', v') # map_set m k v)"

definition set_add :: "'a list \<Rightarrow> 'a \<Rightarrow> 'a list" where
  "set_add xs x = (if x \<in> set xs then xs else xs @ [x])"

text \<open>
  \<^verbatim>\<open>obj[k] = v\<close> on a plain object, which is modelled by its own entries in the order
  they were created. The key \<^verbatim>\<open>__proto__\<close> is not stored: it is the accessor of
  \<^verbatim>\<open>Object.prototype\<close>, whose setter changes the prototype of the object, or does
  nothing, and adds no entry.
\<close>

definition obj_set :: "(string \<times> 'v) list \<Rightarrow> string \<Rightarrow> 'v \<Rightarrow> (string \<times> 'v) list" where
  "obj_set obj k v = (if k = ''__proto__'' then obj else map_set obj k v)"

text \<open>
  Decimal digits and the value of a run of digits.
\<close>

definition is_digit :: "char \<Rightarrow> bool" where
  "is_digit c = (48 \<le> (of_char c :: nat) \<and> (of_char c :: nat) \<le> 57)"

definition dec_val :: "string \<Rightarrow> int" where
  "dec_val ds = foldl (\<lambda>n c. 10 * n + (of_char c - 48)) 0 ds"

text \<open>
  A plain JavaScript object enumerates its own keys (\<^verbatim>\<open>Object.entries\<close>) with the
  array indices first, in ascending numeric order, and then the other keys in the order
  they were created. An array index is the canonical decimal text of an integer from 0
  to \<open>2\<^sup>3\<^sup>2 - 2 = 4294967294\<close>. An object read from JSON is modelled by its entries in the order
  they are declared, with distinct keys.
\<close>

definition is_array_index :: "string \<Rightarrow> bool" where
  "is_array_index k =
     (k \<noteq> [] \<and> list_all is_digit k \<and> (length k = 1 \<or> hd k \<noteq> CHR ''0'') \<and>
      dec_val k < 4294967295)"

definition Object_entries :: "(string \<times> 'v) list \<Rightarrow> (string \<times> 'v) list" where
  "Object_entries obj =
     sort_key (\<lambda>kv. dec_val (fst kv)) (filter (\<lambda>kv. is_array_index (fst kv)) obj) @
     filter (\<lambda>kv. \<not> is_array_index (fst kv)) obj"

section \<open>Operator resolver\<close>

text \<open>
  \<^verbatim>\<open>
  export function resolveOperator(rawCode, txcName, nocMap, overrides) {
    const code = (rawCode || "").trim();
    const name = (txcName || "").trim();
    const ov = overrides || {};
    // 1) Exact override by code
    if (code && Object.prototype.hasOwnProperty.call(ov, code)) return ov[code];
    // 2) Prefix override (e.g. "TKT_OID" matches "TKT_OID:1234")
    if (code) {
      for (const [k, v] of Object.entries(ov)) {
        if (k && code.startsWith(k)) return v;
      }
    }
    // 3) NOC lookup
    if (code && nocMap && nocMap.has(code)) return nocMap.get(code);
    // 4) Override by TXC name
    if (name && Object.prototype.hasOwnProperty.call(ov, name)) return ov[name];
    // 5) Fall back to TXC operator name if present
    if (name) return name;
    // 6) Last resort: show the code
    return code || "";
  }
  \<close>
  The loop of step 2 is \<open>prefixOverride\<close>, over the entries in enumeration order.
\<close>

fun prefixOverride :: "string \<Rightarrow> (string \<times> string) list \<Rightarrow> string option" where
  "prefixOverride code [] = None"
| "prefixOverride code ((k, v) # es) =
     (if k \<noteq> [] \<and> startsWith code k then Some v else prefixOverride code es)"

definition resolveOperator ::
  "string \<Rightarrow> string \<Rightarrow> (string \<rightharpoonup> string) \<Rightarrow> (string \<times> string) list \<Rightarrow> string" where
  "resolveOperator rawCode txcName nocMap ov =
     (let code = trim rawCode; nm = trim txcName in
      case (if code \<noteq> [] then map_of ov code else None) of
        Some v \<Rightarrow> v
      | None \<Rightarrow>
         (case (if code \<noteq> [] then prefixOverride code (Object_entries ov) else None) of
            Some v \<Rightarrow> v
          | None \<Rightarrow>
             (case (if code \<noteq> [] then nocMap code else None) of
                Some v \<Rightarrow> v
              | None \<Rightarrow>
                 (case (if nm \<noteq> [] then map_of ov nm else None) of
                    Some v \<Rightarrow> v
                  | None \<Rightarrow> if nm \<noteq> [] then nm else code))))"

section \<open>Version resolver\<close>

text \<open>
  A version is the pair of a revision number and a publication time value.
  \<^verbatim>\<open>
  const pickBest = (s, root) => ({
    rev: Number(s.RevisionNumber ?? root?.RevisionNumber ?? 0) || 0,
    pubTs: parseISO(root?.PublicationTimestamp || root?.CreationDateTime) || new Date(0),
  });
  const newer = (a, b) => (a.rev !== b.rev ? a.rev > b.rev : a.pubTs > b.pubTs);
  \<close>
  \<^verbatim>\<open>Number\<close>, on the text of its argument, is the parameter \<open>toNumber\<close>, with \<open>None\<close>
  for \<^verbatim>\<open>NaN\<close>; revision numbers are integers. \<^verbatim>\<open>??\<close> passes over an absent
  property only.
\<close>

record version =
  ver_rev :: int
  ver_pubTs :: int

definition pickBest ::
  "(string \<Rightarrow> int option) \<Rightarrow> (string \<Rightarrow> int option) \<Rightarrow> leaf \<Rightarrow> leaf \<Rightarrow> leaf \<Rightarrow> leaf \<Rightarrow>
   version" where
  "pickBest newDate toNumber sRevisionNumber rootRevisionNumber rootPublicationTimestamp
     rootCreationDateTime =
     \<lparr>ver_rev =
        (case (if sRevisionNumber \<noteq> Absent then toNumber (text_of sRevisionNumber)
               else if rootRevisionNumber \<noteq> Absent then toNumber (text_of rootRevisionNumber)
               else Some 0)
         of None \<Rightarrow> 0 | Some n \<Rightarrow> n),
      ver_pubTs =
        (case parseISO newDate (js_or rootPublicationTimestamp rootCreationDateTime) of
           None \<Rightarrow> 0 | Some d \<Rightarrow> d)\<rparr>"

definition newer :: "version \<Rightarrow> version \<Rightarrow> bool" where
  "newer a b = (if ver_rev a \<noteq> ver_rev b then ver_rev a > ver_rev b
                else ver_pubTs a > ver_pubTs b)"

text \<open>
  The version check of \<^verbatim>\<open>parseTXC\<close>, for a service code that is not empty:
  \<^verbatim>\<open>
  const prev = bestServiceVersion.get(code);
  if (prev && !newer(ver, prev)) continue;
  bestServiceVersion.set(code, ver);
  \<close>
  It returns whether the occurrence goes on, and the table of retained versions.
\<close>

definition versionCheck ::
  "(string \<rightharpoonup> version) \<Rightarrow> string \<Rightarrow> version \<Rightarrow> bool \<times> (string \<rightharpoonup> version)" where
  "versionCheck best code ver =
     (case best code of
        Some prev \<Rightarrow> if \<not> newer ver prev then (False, best) else (True, best(code \<mapsto> ver))
      | None \<Rightarrow> (True, best(code \<mapsto> ver)))"

section \<open>Stop-service index\<close>

record resolved_service =
  ref :: string
  name :: string
  operator :: string
  operatorCode :: string
  serviceCode :: string

text \<open>
  \<^verbatim>\<open>JSON.stringify\<close> of a record of five strings: the properties in the order they
  were written, each string quoted, with the quote, the backslash and the control
  characters escaped.
\<close>

definition hex_digit :: "nat \<Rightarrow> char" where
  "hex_digit n = (if n < 10 then char_of (48 + n) else char_of (87 + n))"

definition json_char :: "char \<Rightarrow> string" where
  "json_char c =
     (let n = (of_char c :: nat) in
      if n = 34 then [CHR 0x5C, CHR 0x22]
      else if n = 92 then [CHR 0x5C, CHR 0x5C]
      else if n = 8 then [CHR 0x5C, CHR ''b'']
      else if n = 9 then [CHR 0x5C, CHR ''t'']
      else if n = 10 then [CHR 0x5C, CHR ''n'']
      else if n = 12 then [CHR 0x5C, CHR ''f'']
      else if n = 13 then [CHR 0x5C, CHR ''r'']
      else if n < 32 then [CHR 0x5C, CHR ''u'', CHR ''0'', CHR ''0'',
                           hex_digit (n div 16), hex_digit (n mod 16)]
      else [c])"

definition json_string :: "string \<Rightarrow> string" where
  "json_string s = [CHR 0x22] @ concat (map json_char s) @ [CHR 0x22]"

definition JSON_stringify :: "resolved_service \<Rightarrow> string" where
  "JSON_stringify svc =
     ''{'' @ json_string ''ref'' @ '':'' @ json_string (ref svc) @ '','' @
     json_string ''name'' @ '':'' @ json_string (name svc) @ '','' @
     json_string ''operator'' @ '':'' @ json_string (operator svc) @ '','' @
     json_string ''operatorCode'' @ '':'' @ json_string (operatorCode svc) @ '','' @
     json_string ''serviceCode'' @ '':'' @ json_string (serviceCode svc) @ ''}''"

text \<open>
  \<^verbatim>\<open>
  const key = svc.ref || svc.name || svc.serviceCode || JSON.stringify(svc);
  \<close>
\<close>

definition identity_key :: "resolved_service \<Rightarrow> string" where
  "identity_key svc =
     (if ref svc \<noteq> [] then ref svc
      else if name svc \<noteq> [] then name svc
      else if serviceCode svc \<noteq> [] then serviceCode svc
      else JSON_stringify svc)"

text \<open>
  \<^verbatim>\<open>
  function add(atco, svc) {
    if (!atco) return;
    let bucket = stopToServices.get(atco);
    if (!bucket) {
      bucket = new Map();
      stopToServices.set(atco, bucket);
    }
    const key = svc.ref || svc.name || svc.serviceCode || JSON.stringify(svc);
    if (!bucket.has(key)) bucket.set(key, svc);
  }
  \<close>
  \<^verbatim>\<open>stopToServices\<close> maps a stop to its bucket, a map from identity key to record.
\<close>

type_synonym bucket = "(string \<times> resolved_service) list"
type_synonym stop_index = "(string \<times> bucket) list"

definition add :: "string \<Rightarrow> resolved_service \<Rightarrow> stop_index \<Rightarrow> stop_index" where
  "add atco svc stopToServices =
     (if atco = [] then stopToServices
      else
        let (bucket, idx) =
              (case map_of stopToServices atco of
                 None \<Rightarrow> ([], map_set stopToServices atco [])
               | Some b \<Rightarrow> (b, stopToServices));
            key = identity_key svc
        in if map_of bucket key = None then map_set idx atco (map_set bucket key svc)
           else idx)"

section \<open>Document processing\<close>

text \<open>
  The parts of the parsed document that \<^verbatim>\<open>parseTXC\<close> reads. A property that holds
  one node or an array of nodes is normalised by the source to an array
  (\<^verbatim>\<open>Array.isArray(x) ? x : x ? [x] : []\<close>); it is a list here.
\<close>

record operator_node =
  on_id :: leaf
  on_OperatorRef :: leaf
  on_NationalOperatorCode :: leaf
  on_OperatorCode :: leaf
  on_OperatorNameOnLicence :: leaf
  on_TradingName :: leaf
  on_OperatorShortName :: leaf

record service_node =
  sn_ServiceCode :: leaf
  sn_OperatingPeriod :: "operating_period option"
  sn_RevisionNumber :: leaf
  sn_Lines_Line_LineName :: leaf
  sn_LineName :: leaf
  sn_Description :: leaf
  sn_ServiceRef :: leaf
  sn_RegisteredOperatorRef :: leaf
  sn_Operators :: "operator_node list"

record timing_link =
  From_StopPointRef :: leaf
  To_StopPointRef :: leaf

record vehicle_journey =
  vj_ServiceRef :: leaf
  vj_ServiceCode :: leaf

record txc =
  Services :: "service_node list"
  JourneyPatternSections :: "timing_link list list"
  VehicleJourneys :: "vehicle_journey list"
  Operators :: "operator_node list"
  ValidBetween :: "valid_between option"
  OperatingPeriod :: "operating_period option"
  RevisionNumber :: leaf
  PublicationTimestamp :: leaf
  CreationDateTime :: leaf

text \<open>
  What the run fixes before any document is read: the runtime's date and number
  parsers, the reference date, the canonical table and the overrides.
\<close>

record env =
  newDate :: "string \<Rightarrow> int option"
  toNumber :: "string \<Rightarrow> int option"
  TODAY :: jsdate
  nocMap :: "string \<rightharpoonup> string"
  opOverrides :: "(string \<times> string) list"

text \<open>The module's mutable state.\<close>

record state =
  stopToServices :: stop_index
  bestServiceVersion :: "string \<rightharpoonup> version"
  servicesSeen :: nat
  servicesKept :: nat
  servicesExpired :: nat

definition initial_state :: state where
  "initial_state =
     \<lparr>stopToServices = [], bestServiceVersion = Map.empty,
      servicesSeen = 0, servicesKept = 0, servicesExpired = 0\<rparr>"

text \<open>
  \<^verbatim>\<open>
  for (const link of links) {
    const f = link.From?.StopPointRef, t = link.To?.StopPointRef;
    if (f) sectionStops.add(String(f).trim());
    if (t) sectionStops.add(String(t).trim());
  }
  \<close>
\<close>

definition linkStops :: "string list \<Rightarrow> timing_link \<Rightarrow> string list" where
  "linkStops stops link =
     (let f = From_StopPointRef link; t = To_StopPointRef link;
          stops1 = (if truthy f then set_add stops (trim (str_of f)) else stops)
      in if truthy t then set_add stops1 (trim (str_of t)) else stops1)"

definition sectionStops_of :: "txc \<Rightarrow> string list" where
  "sectionStops_of doc = foldl (foldl linkStops) [] (JourneyPatternSections doc)"

text \<open>
  \<^verbatim>\<open>
  const vjCodes = new Set(
    vjs.map((vj) => String(vj.ServiceRef || vj.ServiceCode || "").trim())
       .filter(Boolean));
  \<close>
\<close>

definition vjRef :: "vehicle_journey \<Rightarrow> string" where
  "vjRef vj = trim (str_of (js_or (vj_ServiceRef vj) (vj_ServiceCode vj)))"

definition vjCodes_of :: "txc \<Rightarrow> string list" where
  "vjCodes_of doc =
     foldl set_add [] (filter (\<lambda>c. c \<noteq> []) (map vjRef (VehicleJourneys doc)))"

text \<open>
  \<^verbatim>\<open>op.OperatorNameOnLicence || op.TradingName || op.OperatorShortName || ""\<close>,
  trimmed.
\<close>

definition operatorName :: "operator_node \<Rightarrow> string" where
  "operatorName op =
     trim (str_of (js_or (js_or (on_OperatorNameOnLicence op) (on_TradingName op))
                     (on_OperatorShortName op)))"

text \<open>
  \<^verbatim>\<open>
  for (const op of opNodes) {
    const id = String(op.id || op.OperatorRef || "").trim();
    const noc = String(op.NationalOperatorCode || "").trim();
    const code = String(op.OperatorCode || noc || id || "").trim();
    const name = String(op.OperatorNameOnLicence || op.TradingName
                        || op.OperatorShortName || "").trim();
    const rec = { code, name };
    if (id) operatorIndex.set(id, rec);
    if (noc) operatorIndex.set(noc, rec);
    if (code && code !== id && code !== noc) operatorIndex.set(code, rec);
  }
  \<close>
  A record \<^verbatim>\<open>{ code, name }\<close> is a pair.
\<close>

definition indexOperator ::
  "(string \<times> string \<times> string) list \<Rightarrow> operator_node \<Rightarrow> (string \<times> string \<times> string) list" where
  "indexOperator operatorIndex op =
     (let oid = trim (str_of (js_or (on_id op) (on_OperatorRef op)));
          noc = trim (str_of (on_NationalOperatorCode op));
          code = trim (if truthy (on_OperatorCode op) then str_of (on_OperatorCode op)
                       else if noc \<noteq> [] then noc else oid);
          rec = (code, operatorName op);
          i1 = (if oid \<noteq> [] then map_set operatorIndex oid rec else operatorIndex);
          i2 = (if noc \<noteq> [] then map_set i1 noc rec else i1)
      in if code \<noteq> [] \<and> code \<noteq> oid \<and> code \<noteq> noc then map_set i2 code rec else i2)"

text \<open>
  The record a retained service is stored as:
  \<^verbatim>\<open>
  const line = s.Lines?.Line?.LineName || s.LineName || s.Description || "";
  const opRef = String(s.RegisteredOperatorRef || "").trim();
  let rawCode = "", txcOpName = "";
  if (opRef && operatorIndex.has(opRef)) {
    const info = operatorIndex.get(opRef);
    rawCode = info.code || opRef;  txcOpName = info.name || "";
  } else if (operatorIndex.size === 1) {
    const only = [...operatorIndex.values()][0];
    rawCode = only.code || opRef;  txcOpName = only.name || "";
  } else {
    const ops = [].concat(s.Operators?.Operator || [])
      .map((o) => (o.OperatorNameOnLicence || o.TradingName
                   || o.OperatorShortName || "").trim())
      .filter(Boolean);
    txcOpName = ops[0] || "";
    rawCode = opRef || txcOpName;
  }
  const resolvedOperator = resolveOperator(rawCode, txcOpName, nocMap, opOverrides);
  const refGuess = (s.ServiceRef || s.LineName || line || "").toString();
  const svc = {
    ref: String(refGuess).trim(),
    name: String(line || refGuess || "").trim(),
    operator: String(resolvedOperator || "").trim(),
    operatorCode: String(rawCode || "").trim(),
    serviceCode: code,
  };
  \<close>
\<close>

datatype error = TypeError

text \<open>
  The name of an operator attached to the service is trimmed without \<^verbatim>\<open>String\<close>:
  \<^verbatim>\<open>(o.OperatorNameOnLicence || o.TradingName || o.OperatorShortName || "").trim()\<close>
  throws a \<^verbatim>\<open>TypeError\<close> when the value chosen is a number or an object, which have
  no method \<^verbatim>\<open>trim\<close>. \<open>serviceOperatorNames\<close> is the \<^verbatim>\<open>map\<close> over the operators,
  which stops at the first one that throws.
\<close>

definition serviceOperatorName :: "operator_node \<Rightarrow> error + string" where
  "serviceOperatorName op =
     (let v = js_or (js_or (on_OperatorNameOnLicence op) (on_TradingName op))
                (on_OperatorShortName op)
      in if \<not> truthy v then Inr (trim [])
         else case v of Text t \<Rightarrow> Inr (trim t) | _ \<Rightarrow> Inl TypeError)"

fun serviceOperatorNames :: "operator_node list \<Rightarrow> error + string list" where
  "serviceOperatorNames [] = Inr []"
| "serviceOperatorNames (op # ops) =
     (case serviceOperatorName op of
        Inl e \<Rightarrow> Inl e
      | Inr n \<Rightarrow>
         (case serviceOperatorNames ops of Inl e \<Rightarrow> Inl e | Inr ns \<Rightarrow> Inr (n # ns)))"

definition rawOperator ::
  "(string \<times> string \<times> string) list \<Rightarrow> service_node \<Rightarrow> error + string \<times> string" where
  "rawOperator operatorIndex s =
     (let opRef = trim (str_of (sn_RegisteredOperatorRef s)) in
      case (if opRef \<noteq> [] then map_of operatorIndex opRef else None) of
        Some info \<Rightarrow> Inr (if fst info \<noteq> [] then fst info else opRef, snd info)
      | None \<Rightarrow>
         (case operatorIndex of
            [only] \<Rightarrow>
              Inr (if fst (snd only) \<noteq> [] then fst (snd only) else opRef, snd (snd only))
          | _ \<Rightarrow>
             (case serviceOperatorNames (sn_Operators s) of
                Inl e \<Rightarrow> Inl e
              | Inr names \<Rightarrow>
                 (let ops = filter (\<lambda>n. n \<noteq> []) names;
                      txcOpName = (case ops of [] \<Rightarrow> [] | n # _ \<Rightarrow> n)
                  in Inr (if opRef \<noteq> [] then opRef else txcOpName, txcOpName)))))"

definition buildService ::
  "env \<Rightarrow> (string \<times> string \<times> string) list \<Rightarrow> service_node \<Rightarrow> string \<Rightarrow>
   error + resolved_service" where
  "buildService e operatorIndex s code =
     (let line = str_of (js_or (js_or (sn_Lines_Line_LineName s) (sn_LineName s))
                           (sn_Description s))
      in case rawOperator operatorIndex s of
           Inl err \<Rightarrow> Inl err
         | Inr (rawCode, txcOpName) \<Rightarrow>
            (let resolvedOperator = resolveOperator rawCode txcOpName (nocMap e) (opOverrides e);
                 refGuess = (if truthy (js_or (sn_ServiceRef s) (sn_LineName s))
                             then text_of (js_or (sn_ServiceRef s) (sn_LineName s)) else line)
             in Inr \<lparr>ref = trim refGuess,
                     name = trim (if line \<noteq> [] then line else refGuess),
                     operator = trim resolvedOperator,
                     operatorCode = trim rawCode,
                     serviceCode = code\<rparr>))"

text \<open>
  The body of the loop over the document's services:
  \<^verbatim>\<open>
  for (const s of services) {
    servicesSeen++;
    const code = String(s.ServiceCode || "").trim();
    if (vjCodes.size && code && !vjCodes.has(code)) continue;
    if (!serviceIsActiveToday(s, txc)) { servicesExpired++; continue; }
    if (code) {
      const ver = pickBest(s, txc);
      const prev = bestServiceVersion.get(code);
      if (prev && !newer(ver, prev)) continue;
      bestServiceVersion.set(code, ver);
    }
    ... (the record svc, above)
    for (const atco of sectionStops) add(atco, svc);
    servicesKept++;
  }
  \<close>
  \<open>serviceCodeOf\<close> is the constant \<^verbatim>\<open>code\<close>, \<open>activeToday\<close> the call
  \<^verbatim>\<open>serviceIsActiveToday(s, txc)\<close> and \<open>versionOf\<close> the call \<^verbatim>\<open>pickBest(s, txc)\<close>.
\<close>

definition serviceCodeOf :: "service_node \<Rightarrow> string" where
  "serviceCodeOf s = trim (str_of (sn_ServiceCode s))"

definition activeToday :: "env \<Rightarrow> txc \<Rightarrow> service_node \<Rightarrow> bool" where
  "activeToday e doc s =
     serviceIsActiveToday (newDate e) (TODAY e) (sn_OperatingPeriod s)
       (ValidBetween doc) (OperatingPeriod doc)"

definition versionOf :: "env \<Rightarrow> txc \<Rightarrow> service_node \<Rightarrow> version" where
  "versionOf e doc s =
     pickBest (newDate e) (toNumber e) (sn_RevisionNumber s) (RevisionNumber doc)
       (PublicationTimestamp doc) (CreationDateTime doc)"

text \<open>
  The body returns the state it leaves and, when building the record has thrown, the
  error: by then the service is counted as seen and its version is retained, and no stop
  association is added.
\<close>

definition processService ::
  "env \<Rightarrow> txc \<Rightarrow> string list \<Rightarrow> string list \<Rightarrow> (string \<times> string \<times> string) list \<Rightarrow>
   state \<Rightarrow> service_node \<Rightarrow> error option \<times> state" where
  "processService e doc sectionStops vjCodes operatorIndex st0 s =
     (let st = st0\<lparr>servicesSeen := servicesSeen st0 + 1\<rparr>;
          code = serviceCodeOf s
      in if vjCodes \<noteq> [] \<and> code \<noteq> [] \<and> code \<notin> set vjCodes then (None, st)
         else if \<not> activeToday e doc s
         then (None, st\<lparr>servicesExpired := servicesExpired st + 1\<rparr>)
         else
           let (go, best) =
                 (if code \<noteq> []
                  then versionCheck (bestServiceVersion st) code (versionOf e doc s)
                  else (True, bestServiceVersion st))
           in if \<not> go then (None, st)
              else
                case buildService e operatorIndex s code of
                  Inl err \<Rightarrow> (Some err, st\<lparr>bestServiceVersion := best\<rparr>)
                | Inr svc \<Rightarrow>
                    (None,
                     st\<lparr>bestServiceVersion := best,
                        stopToServices :=
                          fold (\<lambda>atco. add atco svc) sectionStops (stopToServices st),
                        servicesKept := servicesKept st + 1\<rparr>))"

text \<open>The loop over the services, which an error leaves.\<close>

fun processServices ::
  "env \<Rightarrow> txc \<Rightarrow> string list \<Rightarrow> string list \<Rightarrow> (string \<times> string \<times> string) list \<Rightarrow>
   state \<Rightarrow> service_node list \<Rightarrow> error option \<times> state" where
  "processServices e doc sectionStops vjCodes operatorIndex st [] = (None, st)"
| "processServices e doc sectionStops vjCodes operatorIndex st (s # ss) =
     (case processService e doc sectionStops vjCodes operatorIndex st s of
        (Some err, st') \<Rightarrow> (Some err, st')
      | (None, st') \<Rightarrow> processServices e doc sectionStops vjCodes operatorIndex st' ss)"

text \<open>
  \<^verbatim>\<open>parseTXC\<close>; \<open>None\<close> is a document without the root element
  (\<^verbatim>\<open>if (!txc) return;\<close>). \<^verbatim>\<open>parseZip\<close> calls it as
  \<^verbatim>\<open>try { parseTXC(...) } catch { }\<close>, so that the run goes on from the state an
  error has left: \<open>parseEntry\<close>.
\<close>

definition parseTXC :: "env \<Rightarrow> txc option \<Rightarrow> state \<Rightarrow> error option \<times> state" where
  "parseTXC e root st =
     (case root of
        None \<Rightarrow> (None, st)
      | Some doc \<Rightarrow>
          processServices e doc (sectionStops_of doc) (vjCodes_of doc)
            (foldl indexOperator [] (Operators doc)) st (Services doc))"

definition parseEntry :: "env \<Rightarrow> txc option \<Rightarrow> state \<Rightarrow> state" where
  "parseEntry e root st = snd (parseTXC e root st)"

section \<open>Output builder\<close>

text \<open>
  A JavaScript number is a double: \<^verbatim>\<open>NaN\<close>, an infinity, or a finite value, which for
  the numbers met here is an integer. \<open>toDouble n\<close> is the double nearest to the integer
  \<open>n \<ge> 0\<close>, ties going to the even significand of 53 bits: \<open>n\<close> itself below \<open>2\<^sup>5\<^sup>3\<close>,
  and \<^verbatim>\<open>Infinity\<close> from \<open>2\<^sup>1\<^sup>0\<^sup>2\<^sup>4 - 2\<^sup>9\<^sup>7\<^sup>0\<close> on. \<open>roundDouble\<close> extends it to the
  negative integers, and \<open>js_sub\<close> is the subtraction of two numbers. \<open>bit_length n\<close> is
  the number of binary digits of \<open>n\<close>.
\<close>

datatype jsnum = NaN | Fin int | PInf | NInf

fun bit_length :: "nat \<Rightarrow> nat" where
  "bit_length n = (if n = 0 then 0 else Suc (bit_length (n div 2)))"

declare bit_length.simps [simp del]

definition double_overflow :: int where
  "double_overflow = 2 ^ 1024"

definition toDouble :: "int \<Rightarrow> jsnum" where
  "toDouble n =
     (if n < 9007199254740992 then Fin n
      else
        let e = bit_length (nat n) - 53; q = n div 2 ^ e; r = n mod 2 ^ e;
            q' = (if 2 ^ e < 2 * r \<or> (2 * r = 2 ^ e \<and> odd q) then q + 1 else q)
        in if double_overflow \<le> q' * 2 ^ e then PInf else Fin (q' * 2 ^ e))"

definition roundDouble :: "int \<Rightarrow> jsnum" where
  "roundDouble n =
     (if 0 \<le> n then toDouble n
      else case toDouble (- n) of Fin v \<Rightarrow> Fin (- v) | PInf \<Rightarrow> NInf | x \<Rightarrow> x)"










section \<open>Sharder\<close>

text \<open>
  \<^verbatim>\<open>
  for (const [atco, list] of Object.entries(src)) {
    const prefix = String(atco).slice(0, 4) || "misc";
    if (!buckets.has(prefix)) buckets.set(prefix, {});
    buckets.get(prefix)[atco] = list;
  }
  \<close>
  \<^verbatim>\<open>buckets\<close> is a \<^verbatim>\<open>Map\<close>, each bucket a plain object.
\<close>

definition prefix_of :: "string \<Rightarrow> string" where
  "prefix_of atco = (if take 4 atco \<noteq> [] then take 4 atco else ''misc'')"

definition shardStep ::
  "(string \<times> (string \<times> 'v) list) list \<Rightarrow> string \<times> 'v \<Rightarrow> (string \<times> (string \<times> 'v) list) list" where
  "shardStep buckets entry =
     (let atco = fst entry; list = snd entry; prefix = prefix_of atco;
          buckets1 = (if map_of buckets prefix = None then map_set buckets prefix []
                      else buckets)
      in case map_of buckets1 prefix of
           None \<Rightarrow> buckets1
         | Some obj \<Rightarrow> map_set buckets1 prefix (obj_set obj atco list))"

definition shard :: "(string \<times> 'v) list \<Rightarrow> (string \<times> (string \<times> 'v) list) list" where
  "shard src = foldl shardStep [] (Object_entries src)"

section \<open>Sample inputs and notions of the statements\<close>

text \<open>
  The date parser at three ISO dates (midnight UTC, in milliseconds), for the examples.
\<close>

definition sampleDate :: "string \<Rightarrow> int option" where
  "sampleDate t =
     (if t = ''2024-01-01'' then Some 1704067200000
      else if t = ''2024-06-30'' then Some 1719705600000
      else if t = ''2024-12-31'' then Some 1735603200000
      else None)"

text \<open>
  What the index holds: the records of a stop, in the order of
  \<^verbatim>\<open>[...map.values()]\<close>, and the record stored for a stop under an identity key.
\<close>

definition servicesAt :: "stop_index \<Rightarrow> string \<Rightarrow> resolved_service list" where
  "servicesAt idx atco = (case map_of idx atco of None \<Rightarrow> [] | Some m \<Rightarrow> map snd m)"

definition stored :: "stop_index \<Rightarrow> string \<Rightarrow> string \<Rightarrow> resolved_service option" where
  "stored idx atco key = (case map_of idx atco of None \<Rightarrow> None | Some m \<Rightarrow> map_of m key)"

text \<open>
  A sample run. \<^verbatim>\<open>Number\<close> at two texts; a canonical table and an override table; two
  documents that declare the service \<open>S1\<close> on line 7, the first at revision 1 calling at
  the stops \<open>A\<close> and \<open>B\<close> with the operator \<open>ABCD\<close>, the second at revision 2 calling at
  \<open>B\<close> and \<open>C\<close> with the operator \<open>TKT_OID:9\<close>.
\<close>

definition sampleNumber :: "string \<Rightarrow> int option" where
  "sampleNumber t = (if t = ''1'' then Some 1 else if t = ''2'' then Some 2 else None)"

definition sampleEnv :: env where
  "sampleEnv =
     \<lparr>newDate = sampleDate, toNumber = sampleNumber, TODAY = Date 1710000000000,
      nocMap = [''ABCD'' \<mapsto> ''Acme Buses''],
      opOverrides = [(''TKT_OID'', ''Bee Network Metroline'')]\<rparr>"

definition sampleOperator :: "string \<Rightarrow> string \<Rightarrow> operator_node" where
  "sampleOperator oid noc =
     \<lparr>on_id = Text oid, on_OperatorRef = Absent, on_NationalOperatorCode = Text noc,
      on_OperatorCode = Absent, on_OperatorNameOnLicence = Absent, on_TradingName = Absent,
      on_OperatorShortName = Absent\<rparr>"

definition sampleService :: "leaf \<Rightarrow> string \<Rightarrow> string \<Rightarrow> service_node" where
  "sampleService code revision line =
     \<lparr>sn_ServiceCode = code, sn_OperatingPeriod = None, sn_RevisionNumber = Text revision,
      sn_Lines_Line_LineName = Text line, sn_LineName = Absent, sn_Description = Absent,
      sn_ServiceRef = Absent, sn_RegisteredOperatorRef = Text ''O1'', sn_Operators = []\<rparr>"

definition sampleDoc ::
  "service_node list \<Rightarrow> string \<Rightarrow> string \<Rightarrow> vehicle_journey list \<Rightarrow> string \<Rightarrow> txc" where
  "sampleDoc ss from to vjs noc =
     \<lparr>Services = ss,
      JourneyPatternSections =
        [[\<lparr>From_StopPointRef = Text from, To_StopPointRef = Text to\<rparr>]],
      VehicleJourneys = vjs,
      Operators = [sampleOperator ''O1'' noc],
      ValidBetween = None, OperatingPeriod = None, RevisionNumber = Absent,
      PublicationTimestamp = Text ''2024-01-01'', CreationDateTime = Absent\<rparr>"

definition sampleDoc1 :: txc where
  "sampleDoc1 =
     sampleDoc [sampleService (Text ''S1'') ''1'' ''7''] ''A'' ''B''
       [\<lparr>vj_ServiceRef = Text ''S1'', vj_ServiceCode = Absent\<rparr>] ''ABCD''"

definition sampleDoc2 :: txc where
  "sampleDoc2 =
     sampleDoc [sampleService (Text ''S1'') ''2'' ''7''] ''B'' ''C''
       [\<lparr>vj_ServiceRef = Text ''S1'', vj_ServiceCode = Absent\<rparr>] ''TKT_OID:9''"

definition sampleRecord1 :: resolved_service where
  "sampleRecord1 =
     \<lparr>ref = ''7'', name = ''7'', operator = ''Acme Buses'', operatorCode = ''ABCD'',
      serviceCode = ''S1''\<rparr>"

definition sampleRecord2 :: resolved_service where
  "sampleRecord2 =
     \<lparr>ref = ''7'', name = ''7'', operator = ''Bee Network Metroline'',
      operatorCode = ''TKT_OID:9'', serviceCode = ''S1''\<rparr>"

text \<open>
  The version resolver applied to a list of candidates for one service code, in the
  order of arrival.
\<close>

definition retainAll :: "string \<Rightarrow> version list \<Rightarrow> (string \<rightharpoonup> version) \<Rightarrow> (string \<rightharpoonup> version)" where
  "retainAll code vers best = foldl (\<lambda>b ver. snd (versionCheck b code ver)) best vers"

text \<open>A version key strictly exceeds another: higher revision, or the same and later.\<close>

definition exceeds :: "version \<Rightarrow> version \<Rightarrow> bool" where
  "exceeds a b =
     (ver_rev b < ver_rev a \<or> (ver_rev a = ver_rev b \<and> ver_pubTs b < ver_pubTs a))"

text \<open>The greatest element of a set of version keys.\<close>

definition greatest_in :: "version set \<Rightarrow> version \<Rightarrow> bool" where
  "greatest_in S m = (m \<in> S \<and> (\<forall>v\<in>S. \<not> exceeds v m))"

text \<open>
  A third sample document: the service \<open>S1\<close> at revision 1 again, with the same
  publication time, calling at the stops \<open>D\<close> and \<open>E\<close>.
\<close>

definition sampleDoc3 :: txc where
  "sampleDoc3 =
     sampleDoc [sampleService (Text ''S1'') ''1'' ''7''] ''D'' ''E''
       [\<lparr>vj_ServiceRef = Text ''S1'', vj_ServiceCode = Absent\<rparr>] ''ABCD''"

text \<open>
  Two more sample documents: one whose only vehicle journey names no service, and one
  whose vehicle journey names the service \<open>S2\<close> while the declared service has no code.
\<close>

definition sampleDoc4 :: txc where
  "sampleDoc4 =
     sampleDoc [sampleService (Text ''S1'') ''1'' ''7''] ''A'' ''B''
       [\<lparr>vj_ServiceRef = Absent, vj_ServiceCode = Absent\<rparr>] ''ABCD''"

definition sampleDoc5 :: txc where
  "sampleDoc5 =
     sampleDoc [sampleService Absent ''1'' ''7''] ''A'' ''B''
       [\<lparr>vj_ServiceRef = Text ''S2'', vj_ServiceCode = Absent\<rparr>] ''ABCD''"

text \<open>
  The first entry of the overrides, in the order of enumeration, whose key is not empty
  and begins the code.
\<close>

definition prefixMatch :: "string \<Rightarrow> (string \<times> string) list \<Rightarrow> (string \<times> string) option" where
  "prefixMatch code ov =
     find (\<lambda>kv. fst kv \<noteq> [] \<and> startsWith code (fst kv)) (Object_entries ov)"

text \<open>Sample tables for the operator resolver.\<close>

definition sampleOverrides :: "(string \<times> string) list" where
  "sampleOverrides =
     [(''TKT_OID'', ''Bee Network Metroline''), (''ACME'', ''Acme Group''),
      (''Local Line'', ''Local Line Travel'')]"

definition sampleNoc :: "string \<rightharpoonup> string" where
  "sampleNoc = [''ABCD'' \<mapsto> ''Acme Buses'']"


text \<open>A number that is finite or \<^verbatim>\<open>Infinity\<close>.\<close>

definition isval :: "jsnum \<Rightarrow> bool" where
  "isval x = (x = PInf \<or> (\<exists>m. x = Fin m))"






text \<open>The entry of a stop in the shards: the bucket named \<open>p\<close> at the stop \<open>a\<close>.\<close>

definition shardLookup :: "(string \<times> (string \<times> 'v) list) list \<Rightarrow> string \<Rightarrow> string \<Rightarrow> 'v option" where
  "shardLookup buckets p a =
     (case map_of buckets p of None \<Rightarrow> None | Some obj \<Rightarrow> map_of obj a)"

text \<open>
  A sample service whose own operator carries a numeric trading name, read by the parser
  as a number, in a document that declares no operator.
\<close>

definition sampleService9 :: service_node where
  "sampleService9 =
     \<lparr>sn_ServiceCode = Text ''S9'', sn_OperatingPeriod = None, sn_RevisionNumber = Text ''1'',
      sn_Lines_Line_LineName = Text ''9'', sn_LineName = Absent, sn_Description = Absent,
      sn_ServiceRef = Absent, sn_RegisteredOperatorRef = Absent,
      sn_Operators =
        [\<lparr>on_id = Absent, on_OperatorRef = Absent, on_NationalOperatorCode = Absent,
          on_OperatorCode = Absent, on_OperatorNameOnLicence = Absent,
          on_TradingName = Number ''7'', on_OperatorShortName = Absent\<rparr>]\<rparr>"

section \<open>Properties of insertion-ordered maps\<close>

lemma map_of_map_set:
  "map_of (map_set m k v) k' = (if k' = k then Some v else map_of m k')"
  by (induction m) auto

lemma fst_set_map_set: "fst ` set (map_set m k v) = insert k (fst ` set m)"
proof (induction m)
  case Nil
  then show ?case by simp
next
  case (Cons e m)
  obtain k' v' where e: "e = (k', v')" by (cases e)
  show ?case
  proof (cases "k' = k")
    case True
    with e show ?thesis by simp
  next
    case False
    with e Cons.IH show ?thesis by (simp add: insert_commute)
  qed
qed

lemma distinct_map_set: "distinct (map fst m) \<Longrightarrow> distinct (map fst (map_set m k v))"
  by (induction m) (auto simp: fst_set_map_set)

lemma map_of_rev_distinct: "distinct (map fst xs) \<Longrightarrow> map_of (rev xs) = map_of xs"
  by (simp add: map_of_inject_set distinct_rev rev_map[symmetric])

lemma map_of_obj_set:
  "map_of (obj_set m k v) k' =
     (if k \<noteq> ''__proto__'' \<and> k' = k then Some v else map_of m k')"
  by (simp add: obj_set_def map_of_map_set)

section \<open>Properties of the validity filter\<close>

lemma inRange_Date:
  "inRange (Date D) s e \<longleftrightarrow>
     (\<forall>a. s = Some a \<longrightarrow> a \<le> D) \<and> (\<forall>b. e = Some b \<longrightarrow> D \<le> b)"
  by (auto simp: inRange_def split: option.splits)

lemma active_Date:
  "serviceIsActiveToday nd (Date D) sop rvb rop \<longleftrightarrow>
     (\<forall>a. boundStart nd sop rvb rop = Some a \<longrightarrow> a \<le> D) \<and>
     (\<forall>b. boundEnd nd sop rvb rop = Some b \<longrightarrow> D \<le> b)"
  by (auto simp: serviceIsActiveToday_def Let_def inRange_Date)

lemma parseISO_None [simp]: "parseISO nd Absent = None"
  by (simp add: parseISO_def truthy_def)

lemma js_or_None [simp]: "js_or Absent b = b"
  by (simp add: js_or_def truthy_def)

lemma no_dates_bounds:
  "boundStart nd None None None = None" "boundEnd nd None None None = None"
  by (simp_all add: boundStart_def boundEnd_def date_or_def periodStart_def periodEnd_def
      validFrom_def validTo_def periodOrEmpty_def validOrEmpty_def
      no_operating_period_def no_valid_between_def)

lemmas filter_defs =
  serviceIsActiveToday_def boundStart_def boundEnd_def date_or_def periodStart_def
  periodEnd_def validFrom_def validTo_def periodOrEmpty_def validOrEmpty_def
  no_operating_period_def no_valid_between_def js_or_def truthy_def parseISO_def
  text_of_def sampleDate_def inRange_def

text \<open>
  C6. For a reference date \<open>D\<close> and the resolved bounds \<open>s\<close> and \<open>e\<close>, the filter answers
  true exactly when \<open>s \<le> D \<le> e\<close>, inclusively, a bound that is absent not being
  checked: so with only an end the service is valid up to and including the end. A
  service with no date anywhere (no bound resolved; in particular no period on the
  service and none on the document) is active, whatever the reference date.
\<close>

theorem validity_filter_inclusive:
  "(inRange (Date D) s e \<longleftrightarrow>
      (\<forall>a. s = Some a \<longrightarrow> a \<le> D) \<and> (\<forall>b. e = Some b \<longrightarrow> D \<le> b)) \<and>
   (serviceIsActiveToday nd (Date D) sop rvb rop \<longleftrightarrow>
      (\<forall>a. boundStart nd sop rvb rop = Some a \<longrightarrow> a \<le> D) \<and>
      (\<forall>b. boundEnd nd sop rvb rop = Some b \<longrightarrow> D \<le> b)) \<and>
   (boundStart nd sop rvb rop = None \<and> boundEnd nd sop rvb rop = None \<longrightarrow>
      serviceIsActiveToday nd today sop rvb rop) \<and>
   serviceIsActiveToday nd today None None None"
  by (simp add: inRange_Date active_Date)
     (simp add: serviceIsActiveToday_def no_dates_bounds)

text \<open>
  An instance: a service whose own period runs from 1 January to 30 June 2024 is
  active on both of these days and not on 31 December; with the end alone it is active
  on 1 January.
\<close>

theorem validity_filter_inclusive_witness:
  "boundStart sampleDate
     (Some \<lparr>op_StartDate = Text ''2024-01-01'', op_Start = Absent,
            op_EndDate = Text ''2024-06-30'', op_End = Absent\<rparr>) None None
     = Some 1704067200000 \<and>
   boundEnd sampleDate
     (Some \<lparr>op_StartDate = Text ''2024-01-01'', op_Start = Absent,
            op_EndDate = Text ''2024-06-30'', op_End = Absent\<rparr>) None None
     = Some 1719705600000 \<and>
   serviceIsActiveToday sampleDate (Date 1704067200000)
     (Some \<lparr>op_StartDate = Text ''2024-01-01'', op_Start = Absent,
            op_EndDate = Text ''2024-06-30'', op_End = Absent\<rparr>) None None \<and>
   serviceIsActiveToday sampleDate (Date 1719705600000)
     (Some \<lparr>op_StartDate = Text ''2024-01-01'', op_Start = Absent,
            op_EndDate = Text ''2024-06-30'', op_End = Absent\<rparr>) None None \<and>
   \<not> serviceIsActiveToday sampleDate (Date 1735603200000)
     (Some \<lparr>op_StartDate = Text ''2024-01-01'', op_Start = Absent,
            op_EndDate = Text ''2024-06-30'', op_End = Absent\<rparr>) None None \<and>
   boundStart sampleDate None None None = None \<and>
   boundEnd sampleDate None None None = None \<and>
   serviceIsActiveToday sampleDate InvalidDate None None None"
  using validity_filter_inclusive [of 1704067200000 "Some 1704067200000"
      "Some 1719705600000" sampleDate
      "Some \<lparr>op_StartDate = Text ''2024-01-01'', op_Start = Absent,
             op_EndDate = Text ''2024-06-30'', op_End = Absent\<rparr>" None None InvalidDate]
  by (simp add: filter_defs)

lemma date_or_cases:
  "date_or (date_or x y) z =
     (case x of Some a \<Rightarrow> Some a
      | None \<Rightarrow> (case y of Some a \<Rightarrow> Some a | None \<Rightarrow> z))"
  by (simp add: date_or_def split: option.splits)

lemma lower_bound_cases:
  "(\<forall>a. date_or (date_or x y) z = Some a \<longrightarrow> a \<le> (D::int)) \<longleftrightarrow>
     (case x of Some a \<Rightarrow> a \<le> D
      | None \<Rightarrow> (case y of Some a \<Rightarrow> a \<le> D
                 | None \<Rightarrow> (case z of Some a \<Rightarrow> a \<le> D | None \<Rightarrow> True)))"
  by (simp add: date_or_def split: option.splits)

lemma upper_bound_cases:
  "(\<forall>b. date_or (date_or x y) z = Some b \<longrightarrow> (D::int) \<le> b) \<longleftrightarrow>
     (case x of Some b \<Rightarrow> D \<le> b
      | None \<Rightarrow> (case y of Some b \<Rightarrow> D \<le> b
                 | None \<Rightarrow> (case z of Some b \<Rightarrow> D \<le> b | None \<Rightarrow> True)))"
  by (simp add: date_or_def split: option.splits)

lemma active_per_side:
  "serviceIsActiveToday nd (Date D) sop rvb rop \<longleftrightarrow>
     (case periodStart nd (periodOrEmpty sop) of Some a \<Rightarrow> a \<le> D
      | None \<Rightarrow> (case validFrom nd (validOrEmpty rvb) of Some a \<Rightarrow> a \<le> D
                 | None \<Rightarrow> (case periodStart nd (periodOrEmpty rop) of
                              Some a \<Rightarrow> a \<le> D | None \<Rightarrow> True))) \<and>
     (case periodEnd nd (periodOrEmpty sop) of Some b \<Rightarrow> D \<le> b
      | None \<Rightarrow> (case validTo nd (validOrEmpty rvb) of Some b \<Rightarrow> D \<le> b
                 | None \<Rightarrow> (case periodEnd nd (periodOrEmpty rop) of
                              Some b \<Rightarrow> D \<le> b | None \<Rightarrow> True)))"
  unfolding active_Date boundStart_def boundEnd_def Let_def
    lower_bound_cases upper_bound_cases ..

text \<open>
  C1, as the code has it. The two sides are resolved apart, each by the same priority:
  the start is the first date present among the service's operating period, the
  document's valid-between and the document's operating period, and so is the end; a
  side that no level supplies is not a bound. So when the service's own period has a
  start and no end, the end is taken from the document (valid-between, else operating
  period), and the service is valid from its start with no upper bound only when the
  document has no end either.
\<close>

theorem validity_bounds_per_side:
  "(serviceIsActiveToday nd (Date D) sop rvb rop \<longleftrightarrow>
      (case periodStart nd (periodOrEmpty sop) of Some a \<Rightarrow> a \<le> D
       | None \<Rightarrow> (case validFrom nd (validOrEmpty rvb) of Some a \<Rightarrow> a \<le> D
                  | None \<Rightarrow> (case periodStart nd (periodOrEmpty rop) of
                               Some a \<Rightarrow> a \<le> D | None \<Rightarrow> True))) \<and>
      (case periodEnd nd (periodOrEmpty sop) of Some b \<Rightarrow> D \<le> b
       | None \<Rightarrow> (case validTo nd (validOrEmpty rvb) of Some b \<Rightarrow> D \<le> b
                  | None \<Rightarrow> (case periodEnd nd (periodOrEmpty rop) of
                               Some b \<Rightarrow> D \<le> b | None \<Rightarrow> True)))) \<and>
   (periodStart nd (periodOrEmpty sop) = Some a \<and> periodEnd nd (periodOrEmpty sop) = None \<and>
    validTo nd (validOrEmpty rvb) = Some b \<longrightarrow>
      (serviceIsActiveToday nd (Date D) sop rvb rop \<longleftrightarrow> a \<le> D \<and> D \<le> b)) \<and>
   (periodStart nd (periodOrEmpty sop) = Some a \<and> periodEnd nd (periodOrEmpty sop) = None \<and>
    validTo nd (validOrEmpty rvb) = None \<and> periodEnd nd (periodOrEmpty rop) = None \<longrightarrow>
      (serviceIsActiveToday nd (Date D) sop rvb rop \<longleftrightarrow> a \<le> D))"
proof (intro conjI impI)
  show "serviceIsActiveToday nd (Date D) sop rvb rop \<longleftrightarrow>
      (case periodStart nd (periodOrEmpty sop) of Some a \<Rightarrow> a \<le> D
       | None \<Rightarrow> (case validFrom nd (validOrEmpty rvb) of Some a \<Rightarrow> a \<le> D
                  | None \<Rightarrow> (case periodStart nd (periodOrEmpty rop) of
                               Some a \<Rightarrow> a \<le> D | None \<Rightarrow> True))) \<and>
      (case periodEnd nd (periodOrEmpty sop) of Some b \<Rightarrow> D \<le> b
       | None \<Rightarrow> (case validTo nd (validOrEmpty rvb) of Some b \<Rightarrow> D \<le> b
                  | None \<Rightarrow> (case periodEnd nd (periodOrEmpty rop) of
                               Some b \<Rightarrow> D \<le> b | None \<Rightarrow> True)))"
    by (rule active_per_side)
next
  assume "periodStart nd (periodOrEmpty sop) = Some a \<and>
    periodEnd nd (periodOrEmpty sop) = None \<and> validTo nd (validOrEmpty rvb) = Some b"
  then show "serviceIsActiveToday nd (Date D) sop rvb rop \<longleftrightarrow> a \<le> D \<and> D \<le> b"
    by (simp add: active_per_side)
next
  assume "periodStart nd (periodOrEmpty sop) = Some a \<and>
    periodEnd nd (periodOrEmpty sop) = None \<and> validTo nd (validOrEmpty rvb) = None \<and>
    periodEnd nd (periodOrEmpty rop) = None"
  then show "serviceIsActiveToday nd (Date D) sop rvb rop \<longleftrightarrow> a \<le> D"
    by (simp add: active_per_side)
qed

text \<open>
  An instance: the service's period starts on 1 January 2024 and has no end, the
  document is valid until 30 June 2024. The service is active on 30 June.
\<close>

theorem validity_bounds_per_side_witness:
  "periodStart sampleDate (periodOrEmpty
     (Some \<lparr>op_StartDate = Text ''2024-01-01'', op_Start = Absent,
            op_EndDate = Absent, op_End = Absent\<rparr>)) = Some 1704067200000 \<and>
   periodEnd sampleDate (periodOrEmpty
     (Some \<lparr>op_StartDate = Text ''2024-01-01'', op_Start = Absent,
            op_EndDate = Absent, op_End = Absent\<rparr>)) = None \<and>
   validTo sampleDate (validOrEmpty
     (Some \<lparr>vb_FromDate = Absent, vb_StartDate = Absent, vb_Start = Absent,
            vb_ToDate = Text ''2024-06-30'', vb_EndDate = Absent, vb_End = Absent\<rparr>))
     = Some 1719705600000 \<and>
   serviceIsActiveToday sampleDate (Date 1719705600000)
     (Some \<lparr>op_StartDate = Text ''2024-01-01'', op_Start = Absent,
            op_EndDate = Absent, op_End = Absent\<rparr>)
     (Some \<lparr>vb_FromDate = Absent, vb_StartDate = Absent, vb_Start = Absent,
            vb_ToDate = Text ''2024-06-30'', vb_EndDate = Absent, vb_End = Absent\<rparr>)
     None"
  using validity_bounds_per_side [of sampleDate 1719705600000
      "Some \<lparr>op_StartDate = Text ''2024-01-01'', op_Start = Absent,
             op_EndDate = Absent, op_End = Absent\<rparr>"
      "Some \<lparr>vb_FromDate = Absent, vb_StartDate = Absent, vb_Start = Absent,
             vb_ToDate = Text ''2024-06-30'', vb_EndDate = Absent, vb_End = Absent\<rparr>"
      None 1704067200000 1719705600000]
  by (simp add: filter_defs)

text \<open>
  The same service on 31 December 2024: its own period supplies the start, which lies
  before that day, and no end; the filter rejects it, because the end of the document's
  valid-between has been taken.
\<close>

theorem validity_pair_priority_counterexample:
  "periodStart sampleDate
     \<lparr>op_StartDate = Text ''2024-01-01'', op_Start = Absent,
      op_EndDate = Absent, op_End = Absent\<rparr> = Some 1704067200000 \<and>
   periodEnd sampleDate
     \<lparr>op_StartDate = Text ''2024-01-01'', op_Start = Absent,
      op_EndDate = Absent, op_End = Absent\<rparr> = None \<and>
   (1704067200000 :: int) \<le> 1735603200000 \<and>
   \<not> serviceIsActiveToday sampleDate (Date 1735603200000)
     (Some \<lparr>op_StartDate = Text ''2024-01-01'', op_Start = Absent,
            op_EndDate = Absent, op_End = Absent\<rparr>)
     (Some \<lparr>vb_FromDate = Absent, vb_StartDate = Absent, vb_Start = Absent,
            vb_ToDate = Text ''2024-06-30'', vb_EndDate = Absent, vb_End = Absent\<rparr>)
     None"
  by (simp add: filter_defs)

section \<open>Properties of the stop-service index\<close>

lemma add_present:
  "map_of idx atco = Some b \<Longrightarrow> map_of b (identity_key svc) \<noteq> None \<Longrightarrow>
   add atco svc idx = idx"
  by (auto simp: add_def Let_def)

lemma add_has_key:
  "atco \<noteq> [] \<Longrightarrow>
   \<exists>b. map_of (add atco svc idx) atco = Some b \<and> map_of b (identity_key svc) \<noteq> None"
  by (auto simp: add_def Let_def map_of_map_set split: option.splits)

lemma add_twice: "add atco svc (add atco svc idx) = add atco svc idx"
proof (cases "atco = []")
  case True
  then show ?thesis by (simp add: add_def)
next
  case False
  from add_has_key [OF False] obtain b where
    "map_of (add atco svc idx) atco = Some b" "map_of b (identity_key svc) \<noteq> None"
    by blast
  then show ?thesis by (rule add_present)
qed

lemma stored_add:
  "stored idx a k = Some r \<Longrightarrow> stored (add atco svc idx) a k = Some r"
  by (auto simp: stored_def add_def Let_def map_of_map_set split: option.splits)

lemma stored_fold_add:
  "stored idx a k = Some r \<Longrightarrow>
   stored (fold (\<lambda>atco. add atco svc) stops idx) a k = Some r"
  by (induction stops arbitrary: idx) (auto simp: stored_add)

lemma stored_processService:
  "stored (stopToServices st) a k = Some r \<Longrightarrow>
   stored (stopToServices (snd (processService e doc stops vj oi st s))) a k = Some r"
  by (auto simp: processService_def Let_def stored_fold_add split: prod.splits sum.splits)

lemma stored_processServices:
  "stored (stopToServices st) a k = Some r \<Longrightarrow>
   stored (stopToServices (snd (processServices e doc stops vj oi st ss))) a k = Some r"
proof (induction ss arbitrary: st)
  case Nil
  then show ?case by simp
next
  case (Cons s ss)
  obtain err st' where p: "processService e doc stops vj oi st s = (err, st')"
    by (cases "processService e doc stops vj oi st s")
  with stored_processService [OF Cons.prems, of e doc stops vj oi s]
  have st': "stored (stopToServices st') a k = Some r" by simp
  show ?case
  proof (cases err)
    case None
    with p Cons.IH [OF st'] show ?thesis by simp
  next
    case (Some x)
    with p st' show ?thesis by simp
  qed
qed

lemma stored_parseTXC:
  "stored (stopToServices st) a k = Some r \<Longrightarrow>
   stored (stopToServices (parseEntry e root st)) a k = Some r"
  by (auto simp: parseEntry_def parseTXC_def stored_processServices split: option.splits)

text \<open>
  C8. \<open>add\<close> is idempotent: a second call with the same stop and an equal record, whose
  identity key (the first of \<open>ref\<close>, \<open>name\<close> and \<open>serviceCode\<close> that is not empty, else
  the serialization of the record) is then the same, leaves the index as the first call
  left it, so the stop keeps the same records and the same number of them.
\<close>

theorem add_idempotent:
  "identity_key svc =
     (if ref svc \<noteq> [] then ref svc
      else if name svc \<noteq> [] then name svc
      else if serviceCode svc \<noteq> [] then serviceCode svc
      else JSON_stringify svc) \<and>
   add atco svc (add atco svc idx) = add atco svc idx \<and>
   servicesAt (add atco svc (add atco svc idx)) atco = servicesAt (add atco svc idx) atco \<and>
   length (servicesAt (add atco svc (add atco svc idx)) atco) =
     length (servicesAt (add atco svc idx) atco)"
  by (simp add: add_twice identity_key_def)

text \<open>An instance: the first call stores the record, the second changes nothing.\<close>

theorem add_idempotent_witness:
  "add ''A'' sampleRecord1 [] = [(''A'', [(''7'', sampleRecord1)])] \<and>
   add ''A'' sampleRecord1 (add ''A'' sampleRecord1 []) = add ''A'' sampleRecord1 [] \<and>
   length (servicesAt (add ''A'' sampleRecord1 (add ''A'' sampleRecord1 [])) ''A'') = 1"
proof -
  have "add ''A'' sampleRecord1 [] = [(''A'', [(''7'', sampleRecord1)])]"
    by code_simp
  then show ?thesis
    using add_idempotent [where atco = "''A''" and svc = sampleRecord1 and idx = "[]"]
    by (simp add: servicesAt_def)
qed

text \<open>
  C10. The first record added under an identity key at a stop stays: \<open>add\<close> with a
  record whose key the stop already holds changes nothing, whatever the other fields of
  the record, and no later \<open>add\<close> and no later document, whatever its version, changes
  the record stored under a key at a stop.
\<close>

theorem first_added_wins:
  "(stored idx atco (identity_key svc) = Some r \<longrightarrow> add atco svc idx = idx) \<and>
   (stored idx a k = Some r \<longrightarrow> stored (add atco svc idx) a k = Some r) \<and>
   (stored (stopToServices st) a k = Some r \<longrightarrow>
      stored (stopToServices (parseEntry e root st)) a k = Some r)"
proof (intro conjI impI)
  assume "stored idx atco (identity_key svc) = Some r"
  then show "add atco svc idx = idx"
    by (auto simp: stored_def intro: add_present split: option.splits)
next
  assume "stored idx a k = Some r"
  then show "stored (add atco svc idx) a k = Some r" by (rule stored_add)
next
  assume "stored (stopToServices st) a k = Some r"
  then show "stored (stopToServices (parseEntry e root st)) a k = Some r"
    by (rule stored_parseTXC)
qed

text \<open>
  An instance, on the sample run: after the first document the stop \<open>B\<close> holds the
  record of revision 1 under the key \<open>7\<close>; the second document carries revision 2 of
  the same service, which the version resolver accepts, with another operator; the stop
  \<open>B\<close> still holds the record of revision 1.
\<close>

theorem first_added_wins_witness:
  "identity_key sampleRecord2 = ''7'' \<and>
   sampleRecord2 \<noteq> sampleRecord1 \<and>
   stored (stopToServices (parseEntry sampleEnv (Some sampleDoc1) initial_state)) ''B'' ''7''
     = Some sampleRecord1 \<and>
   add ''B'' sampleRecord2 (stopToServices (parseEntry sampleEnv (Some sampleDoc1) initial_state))
     = stopToServices (parseEntry sampleEnv (Some sampleDoc1) initial_state) \<and>
   bestServiceVersion
     (parseEntry sampleEnv (Some sampleDoc2) (parseEntry sampleEnv (Some sampleDoc1) initial_state))
     ''S1'' = Some \<lparr>ver_rev = 2, ver_pubTs = 1704067200000\<rparr> \<and>
   stored (stopToServices
       (parseEntry sampleEnv (Some sampleDoc2) (parseEntry sampleEnv (Some sampleDoc1) initial_state)))
     ''C'' ''7'' = Some sampleRecord2 \<and>
   stored (stopToServices
       (parseEntry sampleEnv (Some sampleDoc2) (parseEntry sampleEnv (Some sampleDoc1) initial_state)))
     ''B'' ''7'' = Some sampleRecord1"
proof -
  let ?st = "parseEntry sampleEnv (Some sampleDoc1) initial_state"
  have k: "identity_key sampleRecord2 = ''7''" by code_simp
  have d: "sampleRecord2 \<noteq> sampleRecord1" by code_simp
  have s: "stored (stopToServices ?st) ''B'' ''7'' = Some sampleRecord1" by code_simp
  have v: "bestServiceVersion (parseEntry sampleEnv (Some sampleDoc2) ?st) ''S1''
      = Some \<lparr>ver_rev = 2, ver_pubTs = 1704067200000\<rparr>" by code_simp
  have c: "stored (stopToServices (parseEntry sampleEnv (Some sampleDoc2) ?st)) ''C'' ''7''
      = Some sampleRecord2" by code_simp
  show ?thesis
    using first_added_wins [of "stopToServices ?st" "''B''" sampleRecord2 sampleRecord1
        "''B''" "''7''" ?st sampleEnv "Some sampleDoc2"] k d s v c
    by simp
qed

section \<open>Properties of the version resolver\<close>

lemma newer_exceeds: "newer a b \<longleftrightarrow> exceeds a b"
  by (auto simp: newer_def exceeds_def)

lemma exceeds_antisym: "\<not> exceeds a b \<Longrightarrow> \<not> exceeds b a \<Longrightarrow> a = (b::version)"
  by (cases a, cases b) (auto simp: exceeds_def)

lemma exceeds_step: "\<not> exceeds v p \<Longrightarrow> exceeds w p \<Longrightarrow> \<not> exceeds v w"
  by (auto simp: exceeds_def)

lemma exceeds_irrefl: "\<not> exceeds a a"
  by (simp add: exceeds_def)

lemma versionCheck_fst:
  "fst (versionCheck best code ver) \<longleftrightarrow>
     best code = None \<or> (\<exists>prev. best code = Some prev \<and> exceeds ver prev)"
  by (auto simp: versionCheck_def newer_exceeds split: option.splits)

lemma versionCheck_snd:
  "snd (versionCheck best code ver) =
     (if fst (versionCheck best code ver) then best(code \<mapsto> ver) else best)"
  by (auto simp: versionCheck_def split: option.splits)

lemma greatest_unique: "greatest_in S m \<Longrightarrow> greatest_in S m' \<Longrightarrow> m = m'"
  by (auto simp: greatest_in_def intro: exceeds_antisym)

lemma retainAll_other: "k \<noteq> code \<Longrightarrow> retainAll code vers best k = best k"
  unfolding retainAll_def
  by (induction vers arbitrary: best) (auto simp: versionCheck_snd)

lemma retainAll_Nil [simp]: "retainAll code [] best = best"
  by (simp add: retainAll_def)

lemma retainAll_Cons: "retainAll code (v # vs) best = retainAll code vs (snd (versionCheck best code v))"
  by (simp add: retainAll_def)

lemma retainAll_greatest:
  "vers \<noteq> [] \<or> best code \<noteq> None \<Longrightarrow>
   \<exists>m. retainAll code vers best code = Some m \<and> greatest_in (set vers \<union> set_option (best code)) m"
proof (induction vers arbitrary: best)
  case Nil
  then show ?case by (auto simp: greatest_in_def exceeds_irrefl)
next
  case (Cons v vs)
  let ?b = "snd (versionCheck best code v)"
  show ?case
  proof (cases "fst (versionCheck best code v)")
    case True
    then have b: "?b = best(code \<mapsto> v)" by (simp add: versionCheck_snd)
    have "\<exists>m. retainAll code vs (best(code \<mapsto> v)) code = Some m \<and>
        greatest_in (set vs \<union> set_option ((best(code \<mapsto> v)) code)) m"
      by (rule Cons.IH) simp
    then obtain m where m: "retainAll code vs ?b code = Some m"
      "greatest_in (set vs \<union> {v}) m" unfolding b by auto
    from True have "\<forall>p. best code = Some p \<longrightarrow> exceeds v p" by (auto simp: versionCheck_fst)
    with m(2) have "greatest_in (set (v # vs) \<union> set_option (best code)) m"
      by (auto simp: greatest_in_def exceeds_def)
    with m(1) show ?thesis by (auto simp: retainAll_Cons)
  next
    case False
    then have b: "?b = best" by (simp add: versionCheck_snd)
    from False obtain p where p: "best code = Some p" "\<not> exceeds v p"
      by (auto simp: versionCheck_fst)
    have "\<exists>m. retainAll code vs best code = Some m \<and>
        greatest_in (set vs \<union> set_option (best code)) m"
      by (rule Cons.IH) (simp add: p)
    then obtain m where m: "retainAll code vs best code = Some m"
      "greatest_in (set vs \<union> {p}) m" by (auto simp: p)
    from m(2) p(2) have "greatest_in (set (v # vs) \<union> set_option (best code)) m"
      using p(1) by (auto simp: greatest_in_def exceeds_def)
    with m(1) b show ?thesis by (auto simp: retainAll_Cons)
  qed
qed

lemma retainAll_set_eq:
  assumes "set xs = set ys"
  shows "retainAll code xs best = retainAll code ys best"
proof
  fix k
  show "retainAll code xs best k = retainAll code ys best k"
  proof (cases "k = code")
    case False then show ?thesis by (simp add: retainAll_other)
  next
    case True
    show ?thesis
    proof (cases "xs = [] \<and> best code = None")
      case True
      with assms have "xs = []" "ys = []" by auto
      then show ?thesis by simp
    next
      case False
      with assms have x: "xs \<noteq> [] \<or> best code \<noteq> None" and y: "ys \<noteq> [] \<or> best code \<noteq> None" by auto
      from retainAll_greatest[of xs best code] x obtain m where
        m: "retainAll code xs best code = Some m"
           "greatest_in (set xs \<union> set_option (best code)) m" by blast
      from retainAll_greatest[of ys best code] y obtain m' where
        m': "retainAll code ys best code = Some m'"
            "greatest_in (set ys \<union> set_option (best code)) m'" by blast
      from m(2) m'(2) assms have "m = m'" by (auto dest: greatest_unique)
      with m(1) m'(1) \<open>k = code\<close> show ?thesis by simp
    qed
  qed
qed


lemma processService_kept:
  "servicesKept (snd (processService e doc stops vj oi st s)) = servicesKept st + 1 \<longleftrightarrow>
     \<not> (vj \<noteq> [] \<and> serviceCodeOf s \<noteq> [] \<and> serviceCodeOf s \<notin> set vj) \<and>
     activeToday e doc s \<and>
     (serviceCodeOf s = [] \<or>
      fst (versionCheck (bestServiceVersion st) (serviceCodeOf s) (versionOf e doc s))) \<and>
     (\<exists>svc. buildService e oi s (serviceCodeOf s) = Inr svc)"
  by (auto simp: processService_def Let_def split: prod.splits sum.splits)

lemma processService_rejected:
  "serviceCodeOf s \<noteq> [] \<Longrightarrow>
   \<not> fst (versionCheck (bestServiceVersion st) (serviceCodeOf s) (versionOf e doc s)) \<Longrightarrow>
   processService e doc stops vj oi st s = (None, st\<lparr>servicesSeen := servicesSeen st + 1\<rparr>) \<or>
   processService e doc stops vj oi st s =
     (None, st\<lparr>servicesSeen := servicesSeen st + 1,
               servicesExpired := servicesExpired st + 1\<rparr>)"
  by (auto simp: processService_def Let_def versionCheck_snd split: prod.splits)

lemma processService_best_empty:
  "bestServiceVersion st [] = None \<Longrightarrow>
   bestServiceVersion (snd (processService e doc stops vj oi st s)) [] = None"
  by (auto simp: processService_def Let_def split_beta versionCheck_snd split: sum.splits)

lemma processServices_best_empty:
  "bestServiceVersion st [] = None \<Longrightarrow>
   bestServiceVersion (snd (processServices e doc stops vj oi st ss)) [] = None"
proof (induction ss arbitrary: st)
  case Nil
  then show ?case by simp
next
  case (Cons s ss)
  obtain err st' where p: "processService e doc stops vj oi st s = (err, st')"
    by (cases "processService e doc stops vj oi st s")
  with processService_best_empty [OF Cons.prems, of e doc stops vj oi s]
  have st': "bestServiceVersion st' [] = None" by simp
  show ?case
  proof (cases err)
    case None
    with p Cons.IH [OF st'] show ?thesis by simp
  next
    case (Some x)
    with p st' show ?thesis by simp
  qed
qed

lemma parseTXC_best_empty:
  "bestServiceVersion st [] = None \<Longrightarrow> bestServiceVersion (parseEntry e root st) [] = None"
  by (auto simp: parseEntry_def parseTXC_def processServices_best_empty split: option.splits)

text \<open>
  C4. The version resolver lets a candidate through exactly when its service code has no
  retained version, or the candidate's revision is higher than the retained one, or the
  revisions are equal and the candidate's publication time is later; then the candidate
  becomes the retained version, and otherwise the table is unchanged. In the loop of
  \<open>parseTXC\<close>, a service is kept exactly when it passes the other two filters, the
  resolver lets it through (the table never holds a version for the empty code, which
  is not versioned) and building its record does not throw; and an occurrence whose key
  does not exceed the retained one, an equal key included, leaves the index and the
  table as they were: no stop association is added.
\<close>

theorem version_resolver_accepts:
  "(newer ver prev \<longleftrightarrow> exceeds ver prev) \<and>
   (fst (versionCheck best code ver) \<longleftrightarrow>
      best code = None \<or> (\<exists>prev. best code = Some prev \<and> exceeds ver prev)) \<and>
   snd (versionCheck best code ver) =
      (if fst (versionCheck best code ver) then best(code \<mapsto> ver) else best) \<and>
   (bestServiceVersion st [] = None \<longrightarrow>
      (servicesKept (snd (processService e doc stops vj oi st s)) = servicesKept st + 1 \<longleftrightarrow>
         \<not> (vj \<noteq> [] \<and> serviceCodeOf s \<noteq> [] \<and> serviceCodeOf s \<notin> set vj) \<and>
         activeToday e doc s \<and>
         (bestServiceVersion st (serviceCodeOf s) = None \<or>
          (\<exists>prev. bestServiceVersion st (serviceCodeOf s) = Some prev \<and>
                  exceeds (versionOf e doc s) prev)) \<and>
         (\<exists>svc. buildService e oi s (serviceCodeOf s) = Inr svc))) \<and>
   (serviceCodeOf s \<noteq> [] \<and> bestServiceVersion st (serviceCodeOf s) = Some prev \<and>
    \<not> exceeds (versionOf e doc s) prev \<longrightarrow>
      fst (processService e doc stops vj oi st s) = None \<and>
      stopToServices (snd (processService e doc stops vj oi st s)) = stopToServices st \<and>
      bestServiceVersion (snd (processService e doc stops vj oi st s)) = bestServiceVersion st \<and>
      servicesKept (snd (processService e doc stops vj oi st s)) = servicesKept st) \<and>
   bestServiceVersion initial_state [] = None \<and>
   (bestServiceVersion st [] = None \<longrightarrow> bestServiceVersion (parseEntry e root st) [] = None)"
proof (intro conjI impI)
  show "newer ver prev \<longleftrightarrow> exceeds ver prev" by (rule newer_exceeds)
  show "fst (versionCheck best code ver) \<longleftrightarrow>
      best code = None \<or> (\<exists>prev. best code = Some prev \<and> exceeds ver prev)"
    by (rule versionCheck_fst)
  show "snd (versionCheck best code ver) =
      (if fst (versionCheck best code ver) then best(code \<mapsto> ver) else best)"
    by (rule versionCheck_snd)
  show "bestServiceVersion initial_state [] = None" by (simp add: initial_state_def)
next
  assume "bestServiceVersion st [] = None"
  then show "servicesKept (snd (processService e doc stops vj oi st s)) = servicesKept st + 1 \<longleftrightarrow>
         \<not> (vj \<noteq> [] \<and> serviceCodeOf s \<noteq> [] \<and> serviceCodeOf s \<notin> set vj) \<and>
         activeToday e doc s \<and>
         (bestServiceVersion st (serviceCodeOf s) = None \<or>
          (\<exists>prev. bestServiceVersion st (serviceCodeOf s) = Some prev \<and>
                  exceeds (versionOf e doc s) prev)) \<and>
         (\<exists>svc. buildService e oi s (serviceCodeOf s) = Inr svc)"
    unfolding processService_kept versionCheck_fst by auto
next
  assume a: "serviceCodeOf s \<noteq> [] \<and> bestServiceVersion st (serviceCodeOf s) = Some prev \<and>
    \<not> exceeds (versionOf e doc s) prev"
  then have "\<not> fst (versionCheck (bestServiceVersion st) (serviceCodeOf s) (versionOf e doc s))"
    by (simp add: versionCheck_fst)
  with a have r: "processService e doc stops vj oi st s
      = (None, st\<lparr>servicesSeen := servicesSeen st + 1\<rparr>) \<or>
    processService e doc stops vj oi st s =
      (None, st\<lparr>servicesSeen := servicesSeen st + 1,
                servicesExpired := servicesExpired st + 1\<rparr>)"
    by (intro processService_rejected) simp_all
  from r show "fst (processService e doc stops vj oi st s) = None" by auto
  from r show "stopToServices (snd (processService e doc stops vj oi st s)) = stopToServices st"
    by auto
  from r show "bestServiceVersion (snd (processService e doc stops vj oi st s))
      = bestServiceVersion st"
    by auto
  from r show "servicesKept (snd (processService e doc stops vj oi st s)) = servicesKept st"
    by auto
next
  assume "bestServiceVersion st [] = None"
  then show "bestServiceVersion (parseEntry e root st) [] = None" by (rule parseTXC_best_empty)
qed

text \<open>
  An instance, on the sample run: after the first document, the third document brings
  the same service with an equal key; it is not kept and the index is unchanged, while
  revision 2 of the second document is kept. A service that the resolver lets through
  and whose record throws is not kept either: its version is retained and no stop is
  added.
\<close>

theorem version_resolver_accepts_witness:
  "bestServiceVersion (parseEntry sampleEnv (Some sampleDoc1) initial_state) [] = None \<and>
   serviceCodeOf (sampleService (Text ''S1'') ''1'' ''7'') = ''S1'' \<and>
   bestServiceVersion (parseEntry sampleEnv (Some sampleDoc1) initial_state) ''S1''
     = Some \<lparr>ver_rev = 1, ver_pubTs = 1704067200000\<rparr> \<and>
   versionOf sampleEnv sampleDoc3 (sampleService (Text ''S1'') ''1'' ''7'')
     = \<lparr>ver_rev = 1, ver_pubTs = 1704067200000\<rparr> \<and>
   \<not> exceeds \<lparr>ver_rev = 1, ver_pubTs = 1704067200000\<rparr>
       \<lparr>ver_rev = 1, ver_pubTs = 1704067200000\<rparr> \<and>
   stopToServices (snd (processService sampleEnv sampleDoc3 [''D'', ''E''] [''S1''] []
       (parseEntry sampleEnv (Some sampleDoc1) initial_state)
       (sampleService (Text ''S1'') ''1'' ''7'')))
     = stopToServices (parseEntry sampleEnv (Some sampleDoc1) initial_state) \<and>
   servicesKept (snd (processService sampleEnv sampleDoc3 [''D'', ''E''] [''S1''] []
       (parseEntry sampleEnv (Some sampleDoc1) initial_state)
       (sampleService (Text ''S1'') ''1'' ''7'')))
     \<noteq> servicesKept (parseEntry sampleEnv (Some sampleDoc1) initial_state) + 1 \<and>
   servicesKept (snd (processService sampleEnv sampleDoc2 [''B'', ''C''] [''S1''] []
       (parseEntry sampleEnv (Some sampleDoc1) initial_state)
       (sampleService (Text ''S1'') ''2'' ''7'')))
     = servicesKept (parseEntry sampleEnv (Some sampleDoc1) initial_state) + 1 \<and>
   buildService sampleEnv [] sampleService9 ''S9'' = Inl TypeError \<and>
   fst (processService sampleEnv sampleDoc1 [''A'', ''B''] [] [] initial_state sampleService9)
     = Some TypeError \<and>
   bestServiceVersion
     (snd (processService sampleEnv sampleDoc1 [''A'', ''B''] [] [] initial_state sampleService9))
     ''S9'' = Some \<lparr>ver_rev = 1, ver_pubTs = 1704067200000\<rparr> \<and>
   stopToServices
     (snd (processService sampleEnv sampleDoc1 [''A'', ''B''] [] [] initial_state sampleService9))
     = [] \<and>
   servicesKept
     (snd (processService sampleEnv sampleDoc1 [''A'', ''B''] [] [] initial_state sampleService9))
     = 0"
proof -
  have t: "buildService sampleEnv [] sampleService9 ''S9'' = Inl TypeError"
    "fst (processService sampleEnv sampleDoc1 [''A'', ''B''] [] [] initial_state sampleService9)
     = Some TypeError"
    "bestServiceVersion
     (snd (processService sampleEnv sampleDoc1 [''A'', ''B''] [] [] initial_state sampleService9))
     ''S9'' = Some \<lparr>ver_rev = 1, ver_pubTs = 1704067200000\<rparr>"
    "stopToServices
     (snd (processService sampleEnv sampleDoc1 [''A'', ''B''] [] [] initial_state sampleService9))
     = []"
    "servicesKept
     (snd (processService sampleEnv sampleDoc1 [''A'', ''B''] [] [] initial_state sampleService9))
     = 0"
    by code_simp+
  let ?st = "parseEntry sampleEnv (Some sampleDoc1) initial_state"
  let ?s = "sampleService (Text ''S1'') ''1'' ''7''"
  let ?v = "\<lparr>ver_rev = 1, ver_pubTs = 1704067200000\<rparr>"
  have i: "bestServiceVersion ?st [] = None" by code_simp
  have c: "serviceCodeOf ?s = ''S1''" by code_simp
  have b: "bestServiceVersion ?st ''S1'' = Some ?v" by code_simp
  have v: "versionOf sampleEnv sampleDoc3 ?s = ?v" by code_simp
  have x: "\<not> exceeds ?v ?v" by code_simp
  have k: "servicesKept (snd (processService sampleEnv sampleDoc2 [''B'', ''C''] [''S1''] []
       ?st (sampleService (Text ''S1'') ''2'' ''7''))) = servicesKept ?st + 1" by code_simp
  show ?thesis
    using version_resolver_accepts [of ?v ?v "bestServiceVersion ?st" "''S1''" ?st
        sampleEnv sampleDoc3 "[''D'', ''E'']" "[''S1'']" "[]" ?s "Some sampleDoc1"]
      i c b v x k t
    by simp
qed

text \<open>
  C7. For a service code and a table of retained versions, presenting a list of
  candidates to the version resolver ends with the same table for every permutation of
  the list, and even for every list with the same set of candidates; from a table that
  has not seen the code, the version finally retained is the greatest candidate.
\<close>

theorem version_resolution_order_independent:
  "(mset xs = mset ys \<longrightarrow> retainAll code xs best = retainAll code ys best) \<and>
   (set xs = set ys \<longrightarrow> retainAll code xs best = retainAll code ys best) \<and>
   (xs \<noteq> [] \<longrightarrow>
      (\<exists>m. retainAll code xs Map.empty code = Some m \<and> greatest_in (set xs) m))"
proof (intro conjI impI)
  assume "mset xs = mset ys"
  then have "set xs = set ys" by (rule mset_eq_setD)
  then show "retainAll code xs best = retainAll code ys best" by (rule retainAll_set_eq)
next
  assume "set xs = set ys"
  then show "retainAll code xs best = retainAll code ys best" by (rule retainAll_set_eq)
next
  assume "xs \<noteq> []"
  with retainAll_greatest [of xs Map.empty code]
  show "\<exists>m. retainAll code xs Map.empty code = Some m \<and> greatest_in (set xs) m" by simp
qed

text \<open>An instance: three candidates in two orders; revision 3 with the later time stays.\<close>

theorem version_resolution_order_independent_witness:
  "mset [\<lparr>ver_rev = 2, ver_pubTs = 50\<rparr>, \<lparr>ver_rev = 3, ver_pubTs = 10\<rparr>,
         \<lparr>ver_rev = 3, ver_pubTs = 20\<rparr>]
     = mset [\<lparr>ver_rev = 3, ver_pubTs = 20\<rparr>, \<lparr>ver_rev = 2, ver_pubTs = 50\<rparr>,
             \<lparr>ver_rev = 3, ver_pubTs = 10\<rparr>] \<and>
   retainAll ''S1'' [\<lparr>ver_rev = 2, ver_pubTs = 50\<rparr>, \<lparr>ver_rev = 3, ver_pubTs = 10\<rparr>,
                     \<lparr>ver_rev = 3, ver_pubTs = 20\<rparr>] Map.empty
     = retainAll ''S1'' [\<lparr>ver_rev = 3, ver_pubTs = 20\<rparr>, \<lparr>ver_rev = 2, ver_pubTs = 50\<rparr>,
                         \<lparr>ver_rev = 3, ver_pubTs = 10\<rparr>] Map.empty \<and>
   retainAll ''S1'' [\<lparr>ver_rev = 2, ver_pubTs = 50\<rparr>, \<lparr>ver_rev = 3, ver_pubTs = 10\<rparr>,
                     \<lparr>ver_rev = 3, ver_pubTs = 20\<rparr>] Map.empty ''S1''
     = Some \<lparr>ver_rev = 3, ver_pubTs = 20\<rparr> \<and>
   retainAll ''S1'' [\<lparr>ver_rev = 3, ver_pubTs = 20\<rparr>, \<lparr>ver_rev = 2, ver_pubTs = 50\<rparr>,
                     \<lparr>ver_rev = 3, ver_pubTs = 10\<rparr>] Map.empty ''S1''
     = Some \<lparr>ver_rev = 3, ver_pubTs = 20\<rparr>"
proof -
  let ?xs = "[\<lparr>ver_rev = 2, ver_pubTs = 50\<rparr>, \<lparr>ver_rev = 3, ver_pubTs = 10\<rparr>,
              \<lparr>ver_rev = 3, ver_pubTs = 20\<rparr>]"
  let ?ys = "[\<lparr>ver_rev = 3, ver_pubTs = 20\<rparr>, \<lparr>ver_rev = 2, ver_pubTs = 50\<rparr>,
              \<lparr>ver_rev = 3, ver_pubTs = 10\<rparr>]"
  have p: "mset ?xs = mset ?ys" by simp
  have x: "retainAll ''S1'' ?xs Map.empty ''S1'' = Some \<lparr>ver_rev = 3, ver_pubTs = 20\<rparr>"
    by code_simp
  have y: "retainAll ''S1'' ?ys Map.empty ''S1'' = Some \<lparr>ver_rev = 3, ver_pubTs = 20\<rparr>"
    by code_simp
  show ?thesis
    using version_resolution_order_independent [of ?xs ?ys "''S1''" Map.empty] p x y
    by simp
qed

section \<open>Properties of the vehicle-journey gate\<close>

lemma set_foldl_set_add: "set (foldl set_add acc xs) = set acc \<union> set xs"
  by (induction xs arbitrary: acc) (auto simp: set_add_def)

lemma set_vjCodes_of:
  "set (vjCodes_of doc) = {c \<in> vjRef ` set (VehicleJourneys doc). c \<noteq> []}"
  by (auto simp: vjCodes_of_def set_foldl_set_add)

lemma vjCodes_of_Nil: "VehicleJourneys doc = [] \<Longrightarrow> vjCodes_of doc = []"
  by (simp add: vjCodes_of_def)

lemma processService_gated:
  "vj \<noteq> [] \<Longrightarrow> serviceCodeOf s \<noteq> [] \<Longrightarrow> serviceCodeOf s \<notin> set vj \<Longrightarrow>
   processService e doc stops vj oi st s
     = (None, st\<lparr>servicesSeen := servicesSeen st + 1\<rparr>)"
  by (simp add: processService_def Let_def)

lemma processService_not_gated:
  "vj = [] \<or> serviceCodeOf s = [] \<or> serviceCodeOf s \<in> set vj \<Longrightarrow>
   processService e doc stops vj oi st s = processService e doc stops [] oi st s"
  by (auto simp: processService_def Let_def)


text \<open>
  C5, as the code has it. The gate works on the set of the service references of the
  document's vehicle journeys that are not empty (\<^verbatim>\<open>ServiceRef\<close>, else
  \<^verbatim>\<open>ServiceCode\<close>, trimmed). When that set is not empty and the service has a code, a
  service whose code is not in the set is skipped. In every other case (the set is
  empty, as it is when the document declares no vehicle journey, or the service has no
  code, or its code is in the set) the service goes on to the other filters exactly as
  it would in a document without vehicle journeys.
\<close>

theorem vehicle_journey_gate:
  "set (vjCodes_of doc) = {c \<in> vjRef ` set (VehicleJourneys doc). c \<noteq> []} \<and>
   (vjCodes_of doc \<noteq> [] \<and> serviceCodeOf s \<noteq> [] \<and> serviceCodeOf s \<notin> set (vjCodes_of doc) \<longrightarrow>
      processService e doc stops (vjCodes_of doc) oi st s
        = (None, st\<lparr>servicesSeen := servicesSeen st + 1\<rparr>)) \<and>
   (vjCodes_of doc = [] \<or> serviceCodeOf s = [] \<or> serviceCodeOf s \<in> set (vjCodes_of doc) \<longrightarrow>
      processService e doc stops (vjCodes_of doc) oi st s
        = processService e doc stops [] oi st s) \<and>
   (VehicleJourneys doc = [] \<longrightarrow>
      processService e doc stops (vjCodes_of doc) oi st s
        = processService e doc stops [] oi st s)"
proof (intro conjI impI)
  show "set (vjCodes_of doc) = {c \<in> vjRef ` set (VehicleJourneys doc). c \<noteq> []}"
    by (rule set_vjCodes_of)
next
  assume "vjCodes_of doc \<noteq> [] \<and> serviceCodeOf s \<noteq> [] \<and> serviceCodeOf s \<notin> set (vjCodes_of doc)"
  then show "processService e doc stops (vjCodes_of doc) oi st s
        = (None, st\<lparr>servicesSeen := servicesSeen st + 1\<rparr>)"
    by (simp add: processService_gated)
next
  assume "vjCodes_of doc = [] \<or> serviceCodeOf s = [] \<or> serviceCodeOf s \<in> set (vjCodes_of doc)"
  then show "processService e doc stops (vjCodes_of doc) oi st s
        = processService e doc stops [] oi st s"
    by (rule processService_not_gated)
next
  assume "VehicleJourneys doc = []"
  then show "processService e doc stops (vjCodes_of doc) oi st s
        = processService e doc stops [] oi st s"
    by (simp add: vjCodes_of_Nil)
qed


text \<open>
  Instances: with the references \<open>{S2}\<close> the service \<open>S1\<close> is skipped and a service
  without code is not gated; a document without vehicle journeys gates nothing.
\<close>

theorem vehicle_journey_gate_witness:
  "vjCodes_of sampleDoc5 = [''S2''] \<and>
   serviceCodeOf (sampleService (Text ''S1'') ''1'' ''7'') = ''S1'' \<and>
   processService sampleEnv sampleDoc5 [''A'', ''B''] (vjCodes_of sampleDoc5) [] initial_state
       (sampleService (Text ''S1'') ''1'' ''7'')
     = (None, initial_state\<lparr>servicesSeen := 1\<rparr>) \<and>
   serviceCodeOf (sampleService Absent ''1'' ''7'') = [] \<and>
   processService sampleEnv sampleDoc5 [''A'', ''B''] (vjCodes_of sampleDoc5) [] initial_state
       (sampleService Absent ''1'' ''7'')
     = processService sampleEnv sampleDoc5 [''A'', ''B''] [] [] initial_state
         (sampleService Absent ''1'' ''7'') \<and>
   VehicleJourneys (sampleDoc [] ''A'' ''B'' [] ''ABCD'') = [] \<and>
   processService sampleEnv (sampleDoc [] ''A'' ''B'' [] ''ABCD'') [''A'', ''B'']
       (vjCodes_of (sampleDoc [] ''A'' ''B'' [] ''ABCD'')) [] initial_state
       (sampleService (Text ''S1'') ''1'' ''7'')
     = processService sampleEnv (sampleDoc [] ''A'' ''B'' [] ''ABCD'') [''A'', ''B''] [] []
         initial_state (sampleService (Text ''S1'') ''1'' ''7'')"
proof -
  let ?s1 = "sampleService (Text ''S1'') ''1'' ''7''"
  let ?s0 = "sampleService Absent ''1'' ''7''"
  let ?d = "sampleDoc [] ''A'' ''B'' [] ''ABCD''"
  have v: "vjCodes_of sampleDoc5 = [''S2'']" by code_simp
  have c1: "serviceCodeOf ?s1 = ''S1''" by code_simp
  have c0: "serviceCodeOf ?s0 = []" by code_simp
  have n: "VehicleJourneys ?d = []" by (simp add: sampleDoc_def)
  have i: "servicesSeen initial_state + 1 = 1" by (simp add: initial_state_def)
  show ?thesis
    using vehicle_journey_gate [of sampleDoc5 ?s1 sampleEnv "[''A'', ''B'']" "[]" initial_state]
      vehicle_journey_gate [of sampleDoc5 ?s0 sampleEnv "[''A'', ''B'']" "[]" initial_state]
      vehicle_journey_gate [of ?d ?s1 sampleEnv "[''A'', ''B'']" "[]" initial_state]
      v c1 c0 n i
    by simp
qed

text \<open>
  A document that declares a vehicle journey with no service reference, and the service
  \<open>S1\<close>: the code is not among the references, and the service is extracted. A
  document whose vehicle journey refers to \<open>S2\<close>, and a service without code: it is
  extracted too.
\<close>

theorem vehicle_journey_gate_counterexample:
  "VehicleJourneys sampleDoc4 \<noteq> [] \<and>
   map serviceCodeOf (Services sampleDoc4) = [''S1''] \<and>
   ''S1'' \<notin> set (map vjRef (VehicleJourneys sampleDoc4)) \<and>
   servicesAt (stopToServices (parseEntry sampleEnv (Some sampleDoc4) initial_state)) ''A''
     = [sampleRecord1] \<and>
   VehicleJourneys sampleDoc5 \<noteq> [] \<and>
   map serviceCodeOf (Services sampleDoc5) = [[]] \<and>
   [] \<notin> set (map vjRef (VehicleJourneys sampleDoc5)) \<and>
   servicesAt (stopToServices (parseEntry sampleEnv (Some sampleDoc5) initial_state)) ''A''
     = [\<lparr>ref = ''7'', name = ''7'', operator = ''Acme Buses'', operatorCode = ''ABCD'',
         serviceCode = []\<rparr>]"
  by code_simp

section \<open>Properties of the operator resolver\<close>

lemma prefixOverride_find:
  "prefixOverride code es =
     map_option snd (find (\<lambda>kv. fst kv \<noteq> [] \<and> startsWith code (fst kv)) es)"
  by (induction es) auto

lemma Object_entries_plain:
  "\<forall>kv\<in>set obj. \<not> is_array_index (fst kv) \<Longrightarrow> Object_entries obj = obj"
  by (simp add: Object_entries_def filter_id_conv filter_empty_conv[THEN iffD2])

lemma resolve_cases:
  "resolveOperator rawCode txcName noc ov =
     (if trim rawCode \<noteq> [] \<and> map_of ov (trim rawCode) \<noteq> None
      then the (map_of ov (trim rawCode))
      else if trim rawCode \<noteq> [] \<and> prefixMatch (trim rawCode) ov \<noteq> None
      then snd (the (prefixMatch (trim rawCode) ov))
      else if trim rawCode \<noteq> [] \<and> noc (trim rawCode) \<noteq> None then the (noc (trim rawCode))
      else if trim txcName \<noteq> [] \<and> map_of ov (trim txcName) \<noteq> None
      then the (map_of ov (trim txcName))
      else if trim txcName \<noteq> [] then trim txcName else trim rawCode)"
  by (auto simp: resolveOperator_def Let_def prefixOverride_find prefixMatch_def
      split: option.splits)

lemma trim_samples:
  "trim ''TKT_OID:9'' = ''TKT_OID:9''" "trim ''ABCD'' = ''ABCD''" "trim ''ACME'' = ''ACME''"
  "trim ''ZZZZ'' = ''ZZZZ''" "trim ''Local Line'' = ''Local Line''"
  "trim ''Other'' = ''Other''" "trim [] = []"
  by code_simp+

lemma prefixMatch_samples:
  "prefixMatch ''TKT_OID:9'' [(''TKT_OID'', ''Bee Network Metroline'')]
     = Some (''TKT_OID'', ''Bee Network Metroline'')"
  "prefixMatch ''ABCD'' [(''TKT_OID'', ''Bee Network Metroline'')] = None"
  "prefixMatch ''ABCD'' [] = None"
  "prefixMatch ''TKT_OID:9'' sampleOverrides = Some (''TKT_OID'', ''Bee Network Metroline'')"
  "prefixMatch ''ABCD'' sampleOverrides = None"
  "prefixMatch ''ZZZZ'' sampleOverrides = None"
  by code_simp+

lemma map_of_samples:
  "map_of sampleOverrides ''ACME'' = Some ''Acme Group''"
  "map_of sampleOverrides ''TKT_OID:9'' = None"
  "map_of sampleOverrides ''ABCD'' = None"
  "map_of sampleOverrides ''ZZZZ'' = None"
  "map_of sampleOverrides ''Local Line'' = Some ''Local Line Travel''"
  "map_of sampleOverrides ''Other'' = None"
  "sampleNoc ''ABCD'' = Some ''Acme Buses''"
  "sampleNoc ''ZZZZ'' = None"
  by code_simp+

lemma plain_samples: "list_all (\<lambda>kv. \<not> is_array_index (fst kv)) sampleOverrides"
  by code_simp

text \<open>
  C3, as the code has it. \<open>resolveOperator\<close> trims the code and the name and returns
  the first match of: (1) the override whose key is the code, for a code that is not
  empty; (2) the first override, in the order in which the overrides object enumerates
  its entries, whose key is not empty and begins the code, for a code that is not empty;
  (3) the canonical table at the code, for a code that is not empty; (4) the override
  whose key is the name, for a name that is not empty; (5) the name, when it is not
  empty; (6) the code, which may be empty. The enumeration order is the declared order
  when no key is an array index; keys that are array indices come first, in ascending
  numeric order. The four examples of the claim hold.
\<close>

theorem operator_resolution_order:
  "(trim rawCode \<noteq> [] \<and> map_of ov (trim rawCode) = Some v \<longrightarrow>
      resolveOperator rawCode txcName noc ov = v) \<and>
   (trim rawCode \<noteq> [] \<and> map_of ov (trim rawCode) = None \<and>
    prefixMatch (trim rawCode) ov = Some (k, v) \<longrightarrow>
      resolveOperator rawCode txcName noc ov = v) \<and>
   (trim rawCode \<noteq> [] \<and> map_of ov (trim rawCode) = None \<and>
    prefixMatch (trim rawCode) ov = None \<and> noc (trim rawCode) = Some v \<longrightarrow>
      resolveOperator rawCode txcName noc ov = v) \<and>
   ((trim rawCode = [] \<or>
     (map_of ov (trim rawCode) = None \<and> prefixMatch (trim rawCode) ov = None \<and>
      noc (trim rawCode) = None)) \<longrightarrow>
      (trim txcName \<noteq> [] \<and> map_of ov (trim txcName) = Some v \<longrightarrow>
         resolveOperator rawCode txcName noc ov = v) \<and>
      (trim txcName \<noteq> [] \<and> map_of ov (trim txcName) = None \<longrightarrow>
         resolveOperator rawCode txcName noc ov = trim txcName) \<and>
      (trim txcName = [] \<longrightarrow> resolveOperator rawCode txcName noc ov = trim rawCode)) \<and>
   ((\<forall>kv\<in>set ov. \<not> is_array_index (fst kv)) \<longrightarrow> Object_entries ov = ov) \<and>
   resolveOperator ''TKT_OID:9'' txcName [''ABCD'' \<mapsto> ''Acme Buses'']
     [(''TKT_OID'', ''Bee Network Metroline'')] = ''Bee Network Metroline'' \<and>
   resolveOperator ''ABCD'' txcName [''ABCD'' \<mapsto> ''Acme Buses''] [] = ''Acme Buses'' \<and>
   resolveOperator ''ABCD'' txcName [''ABCD'' \<mapsto> ''Acme Buses'']
     [(''TKT_OID'', ''Bee Network Metroline'')] = ''Acme Buses'' \<and>
   resolveOperator ''ZZZZ'' ''Local Line'' [''ABCD'' \<mapsto> ''Acme Buses'']
     [(''TKT_OID'', ''Bee Network Metroline'')] = ''Local Line'' \<and>
   resolveOperator [] [] [''ABCD'' \<mapsto> ''Acme Buses'']
     [(''TKT_OID'', ''Bee Network Metroline'')] = []"
proof (intro conjI)
  show "trim rawCode \<noteq> [] \<and> map_of ov (trim rawCode) = Some v \<longrightarrow>
      resolveOperator rawCode txcName noc ov = v"
    by (simp add: resolve_cases)
  show "trim rawCode \<noteq> [] \<and> map_of ov (trim rawCode) = None \<and>
    prefixMatch (trim rawCode) ov = Some (k, v) \<longrightarrow>
      resolveOperator rawCode txcName noc ov = v"
    by (simp add: resolve_cases)
  show "trim rawCode \<noteq> [] \<and> map_of ov (trim rawCode) = None \<and>
    prefixMatch (trim rawCode) ov = None \<and> noc (trim rawCode) = Some v \<longrightarrow>
      resolveOperator rawCode txcName noc ov = v"
    by (simp add: resolve_cases)
  show "(trim rawCode = [] \<or>
     (map_of ov (trim rawCode) = None \<and> prefixMatch (trim rawCode) ov = None \<and>
      noc (trim rawCode) = None)) \<longrightarrow>
      (trim txcName \<noteq> [] \<and> map_of ov (trim txcName) = Some v \<longrightarrow>
         resolveOperator rawCode txcName noc ov = v) \<and>
      (trim txcName \<noteq> [] \<and> map_of ov (trim txcName) = None \<longrightarrow>
         resolveOperator rawCode txcName noc ov = trim txcName) \<and>
      (trim txcName = [] \<longrightarrow> resolveOperator rawCode txcName noc ov = trim rawCode)"
    by (auto simp: resolve_cases)
  show "(\<forall>kv\<in>set ov. \<not> is_array_index (fst kv)) \<longrightarrow> Object_entries ov = ov"
    by (simp add: Object_entries_plain)
  show "resolveOperator ''TKT_OID:9'' txcName [''ABCD'' \<mapsto> ''Acme Buses'']
     [(''TKT_OID'', ''Bee Network Metroline'')] = ''Bee Network Metroline''"
    by (simp add: resolve_cases trim_samples prefixMatch_samples)
  show "resolveOperator ''ABCD'' txcName [''ABCD'' \<mapsto> ''Acme Buses''] [] = ''Acme Buses''"
    by (simp add: resolve_cases trim_samples prefixMatch_samples)
  show "resolveOperator ''ABCD'' txcName [''ABCD'' \<mapsto> ''Acme Buses'']
     [(''TKT_OID'', ''Bee Network Metroline'')] = ''Acme Buses''"
    by (simp add: resolve_cases trim_samples prefixMatch_samples)
  show "resolveOperator ''ZZZZ'' ''Local Line'' [''ABCD'' \<mapsto> ''Acme Buses'']
     [(''TKT_OID'', ''Bee Network Metroline'')] = ''Local Line''"
    by code_simp
  show "resolveOperator [] [] [''ABCD'' \<mapsto> ''Acme Buses'']
     [(''TKT_OID'', ''Bee Network Metroline'')] = []"
    by code_simp
qed

text \<open>Instances of each step, on the sample tables.\<close>

theorem operator_resolution_order_witness:
  "map_of sampleOverrides ''ACME'' = Some ''Acme Group'' \<and>
   resolveOperator ''ACME'' [] sampleNoc sampleOverrides = ''Acme Group'' \<and>
   prefixMatch ''TKT_OID:9'' sampleOverrides = Some (''TKT_OID'', ''Bee Network Metroline'') \<and>
   resolveOperator ''TKT_OID:9'' [] sampleNoc sampleOverrides = ''Bee Network Metroline'' \<and>
   sampleNoc ''ABCD'' = Some ''Acme Buses'' \<and>
   resolveOperator ''ABCD'' [] sampleNoc sampleOverrides = ''Acme Buses'' \<and>
   map_of sampleOverrides ''Local Line'' = Some ''Local Line Travel'' \<and>
   resolveOperator ''ZZZZ'' ''Local Line'' sampleNoc sampleOverrides = ''Local Line Travel'' \<and>
   resolveOperator ''ZZZZ'' ''Other'' sampleNoc sampleOverrides = ''Other'' \<and>
   resolveOperator ''ZZZZ'' [] sampleNoc sampleOverrides = ''ZZZZ'' \<and>
   resolveOperator [] ''Other'' sampleNoc sampleOverrides = ''Other'' \<and>
   Object_entries sampleOverrides = sampleOverrides"
proof -
  note f = trim_samples prefixMatch_samples map_of_samples
  have p: "\<forall>kv\<in>set sampleOverrides. \<not> is_array_index (fst kv)"
    using plain_samples by (simp add: list_all_iff)
  have 1: "resolveOperator ''ACME'' [] sampleNoc sampleOverrides = ''Acme Group''"
    using operator_resolution_order [where rawCode = "''ACME''" and ov = sampleOverrides
        and v = "''Acme Group''" and txcName = "[]" and noc = sampleNoc]
    by (simp add: f)
  have 2: "resolveOperator ''TKT_OID:9'' [] sampleNoc sampleOverrides = ''Bee Network Metroline''"
    using operator_resolution_order [where rawCode = "''TKT_OID:9''" and ov = sampleOverrides
        and v = "''Bee Network Metroline''" and k = "''TKT_OID''" and txcName = "[]"
        and noc = sampleNoc]
    by (simp add: f)
  have 3: "resolveOperator ''ABCD'' [] sampleNoc sampleOverrides = ''Acme Buses''"
    using operator_resolution_order [where rawCode = "''ABCD''" and ov = sampleOverrides
        and v = "''Acme Buses''" and txcName = "[]" and noc = sampleNoc]
    by (simp add: f)
  have 4: "resolveOperator ''ZZZZ'' ''Local Line'' sampleNoc sampleOverrides = ''Local Line Travel''"
    using operator_resolution_order [where rawCode = "''ZZZZ''" and ov = sampleOverrides
        and v = "''Local Line Travel''" and txcName = "''Local Line''" and noc = sampleNoc]
    by (simp add: f)
  have 5: "resolveOperator ''ZZZZ'' ''Other'' sampleNoc sampleOverrides = ''Other''"
    using operator_resolution_order [where rawCode = "''ZZZZ''" and ov = sampleOverrides
        and txcName = "''Other''" and noc = sampleNoc]
    by (simp add: f)
  have 6: "resolveOperator ''ZZZZ'' [] sampleNoc sampleOverrides = ''ZZZZ''"
    using operator_resolution_order [where rawCode = "''ZZZZ''" and ov = sampleOverrides
        and txcName = "[]" and noc = sampleNoc]
    by (simp add: f)
  have 7: "resolveOperator [] ''Other'' sampleNoc sampleOverrides = ''Other''"
    using operator_resolution_order [where rawCode = "[]" and ov = sampleOverrides
        and txcName = "''Other''" and noc = sampleNoc]
    by (simp add: f)
  have 8: "Object_entries sampleOverrides = sampleOverrides"
    using operator_resolution_order [where ov = sampleOverrides] p by blast
  show ?thesis using 1 2 3 4 5 6 7 8 by (simp add: f)
qed

text \<open>
  With the overrides \<^verbatim>\<open>{"": "X"}\<close> the code \<open>ZZZZ\<close> begins with the key, the empty
  string, and yet resolves to itself; and the empty code does not take the override
  keyed by it. With the overrides \<^verbatim>\<open>{"12": "B", "1": "A"}\<close> the first declared key
  that begins the code \<open>123\<close> is \<open>12\<close>, and the code resolves to \<open>A\<close>.
\<close>

theorem operator_resolution_counterexample:
  "startsWith ''ZZZZ'' [] \<and>
   resolveOperator ''ZZZZ'' [] Map.empty [([], ''X'')] = ''ZZZZ'' \<and>
   map_of [([] :: string, ''X'')] [] = Some ''X'' \<and>
   resolveOperator [] [] Map.empty [([], ''X'')] = [] \<and>
   startsWith ''123'' ''12'' \<and>
   resolveOperator ''123'' [] Map.empty [(''12'', ''B''), (''1'', ''A'')] = ''A''"
  by code_simp

section \<open>Properties of the output builder\<close>


lemma toDouble_isval: "isval (toDouble n)"
  by (simp add: toDouble_def isval_def Let_def)


lemma roundDouble_isval_or_neg:
  "roundDouble d = NInf \<or> isval (roundDouble d)"
  using toDouble_isval [of d] toDouble_isval [of "- d"]
  by (auto simp: roundDouble_def isval_def split: jsnum.splits)

































section \<open>Properties of the sharder\<close>

lemma shardLookup_Nil: "shardLookup [] p a = None"
  by (simp add: shardLookup_def)

lemma shardLookup_shardStep:
  "shardLookup (shardStep B (a0, v0)) p a =
     (if p = prefix_of a0 \<and> a = a0 \<and> a0 \<noteq> ''__proto__'' then Some v0
      else shardLookup B p a)"
  by (auto simp: shardStep_def shardLookup_def Let_def map_of_map_set map_of_obj_set
      split: option.splits)

lemma shardLookup_foldl:
  "shardLookup (foldl shardStep B es) p a =
     (if a = ''__proto__'' then shardLookup B p a
      else case map_of (rev es) a of
        Some v \<Rightarrow> if prefix_of a = p then Some v else shardLookup B p a
      | None \<Rightarrow> shardLookup B p a)"
proof (induction es arbitrary: B)
  case Nil
  then show ?case by simp
next
  case (Cons e es)
  obtain a0 v0 where e: "e = (a0, v0)" by (cases e)
  show ?case
    by (auto simp: Cons.IH e shardLookup_shardStep map_add_def split: option.splits)
qed

lemma distinct_shardStep: "distinct (map fst B) \<Longrightarrow> distinct (map fst (shardStep B e))"
  by (auto simp: shardStep_def Let_def distinct_map_set split: option.splits)

lemma distinct_foldl_shardStep:
  "distinct (map fst B) \<Longrightarrow> distinct (map fst (foldl shardStep B es))"
  by (induction es arbitrary: B) (auto simp: distinct_shardStep)

lemma set_Object_entries: "set (Object_entries obj) = set obj"
  by (auto simp: Object_entries_def)

lemma distinct_Object_entries:
  "distinct (map fst obj) \<Longrightarrow> distinct (map fst (Object_entries obj))"
  by (auto simp: Object_entries_def distinct_map inj_on_def)

lemma map_of_Object_entries:
  "distinct (map fst obj) \<Longrightarrow> map_of (Object_entries obj) = map_of obj"
  by (simp add: map_of_inject_set distinct_Object_entries set_Object_entries)

lemma shardLookup_shard:
  assumes "distinct (map fst src)"
  shows "shardLookup (shard src) p a =
    (if prefix_of a = p \<and> a \<noteq> ''__proto__'' then map_of src a else None)"
proof -
  have "map_of (rev (Object_entries src)) = map_of src"
    using assms by (simp add: map_of_rev_distinct distinct_Object_entries map_of_Object_entries)
  then show ?thesis
    unfolding shard_def shardLookup_foldl by (simp add: shardLookup_Nil split: option.splits)
qed

lemma prefix_of_cases: "prefix_of atco = (if atco = [] then ''misc'' else take 4 atco)"
  by (simp add: prefix_of_def)


text \<open>
  C9, as the code has it. The bucket of a stop is named by the first four characters of
  its identifier; an identifier of fewer than four characters that is not empty names its
  bucket by itself, and the empty identifier alone goes to the bucket \<open>misc\<close>. Every
  stop of the input but the one named \<^verbatim>\<open>__proto__\<close> is found in the bucket of its
  prefix, with its list, and in no other bucket; a stop named \<^verbatim>\<open>__proto__\<close> is in no
  bucket; the buckets have distinct names.
\<close>

theorem shard_by_prefix:
  "prefix_of atco = (if atco = [] then ''misc'' else take 4 atco) \<and>
   (atco \<noteq> [] \<and> length atco < 4 \<longrightarrow> prefix_of atco = atco) \<and>
   (4 \<le> length atco \<longrightarrow> length (prefix_of atco) = 4) \<and>
   (distinct (map fst src) \<longrightarrow>
      shardLookup (shard src) p a =
        (if prefix_of a = p \<and> a \<noteq> ''__proto__'' then map_of src a else None)) \<and>
   distinct (map fst (shard src))"
proof (intro conjI impI)
  show "prefix_of atco = (if atco = [] then ''misc'' else take 4 atco)"
    by (rule prefix_of_cases)
  show "distinct (map fst (shard src))"
    unfolding shard_def by (rule distinct_foldl_shardStep) simp
next
  assume "atco \<noteq> [] \<and> length atco < 4"
  then show "prefix_of atco = atco" by (simp add: prefix_of_cases)
next
  assume "4 \<le> length atco"
  then show "length (prefix_of atco) = 4" by (auto simp: prefix_of_cases)
next
  assume "distinct (map fst src)"
  then show "shardLookup (shard src) p a =
        (if prefix_of a = p \<and> a \<noteq> ''__proto__'' then map_of src a else None)"
    by (rule shardLookup_shard)
qed

text \<open>
  An instance: five stops, three buckets; and a stop named \<^verbatim>\<open>__proto__\<close>, which
  leaves its bucket empty.
\<close>

theorem shard_by_prefix_witness:
  "distinct (map fst [(''1800SB01'', 1 :: nat), (''AB'', 2), (''1800SB02'', 3), ([], 4),
                      (''misc7'', 5)]) \<and>
   shard [(''1800SB01'', 1 :: nat), (''AB'', 2), (''1800SB02'', 3), ([], 4), (''misc7'', 5)]
     = [(''1800'', [(''1800SB01'', 1), (''1800SB02'', 3)]), (''AB'', [(''AB'', 2)]),
        (''misc'', [([], 4), (''misc7'', 5)])] \<and>
   shardLookup
     (shard [(''1800SB01'', 1 :: nat), (''AB'', 2), (''1800SB02'', 3), ([], 4), (''misc7'', 5)])
     ''1800'' ''1800SB02'' = Some 3 \<and>
   prefix_of ''AB'' = ''AB'' \<and> length (prefix_of ''1800SB01'') = 4 \<and>
   shard [(''__proto__'', 9 :: nat), (''1800SB01'', 1)]
     = [(''__pr'', []), (''1800'', [(''1800SB01'', 1)])]"
proof -
  let ?src = "[(''1800SB01'', 1 :: nat), (''AB'', 2), (''1800SB02'', 3), ([], 4), (''misc7'', 5)]"
  have d: "distinct (map fst ?src)" by simp
  have s: "shard ?src
     = [(''1800'', [(''1800SB01'', 1), (''1800SB02'', 3)]), (''AB'', [(''AB'', 2)]),
        (''misc'', [([], 4), (''misc7'', 5)])]" by code_simp
  have p: "prefix_of ''1800SB02'' = ''1800''" by code_simp
  have u: "shard [(''__proto__'', 9 :: nat), (''1800SB01'', 1)]
     = [(''__pr'', []), (''1800'', [(''1800SB01'', 1)])]" by code_simp
  show ?thesis
    using shard_by_prefix [of "''AB''" ?src "''1800''" "''1800SB02''"]
      shard_by_prefix [of "''1800SB01''" ?src "''1800''" "''1800SB02''"] d s p u
    by simp
qed

text \<open>
  The stop \<open>AB\<close> is shorter than the prefix and gets the bucket \<open>AB\<close>, not the
  catch-all; and the catch-all \<open>misc\<close> is also the bucket of the stop \<open>misc7\<close>, by
  its prefix.
\<close>

theorem shard_catch_all_counterexample:
  "length ''AB'' < 4 \<and> prefix_of ''AB'' = ''AB'' \<and> prefix_of ''AB'' \<noteq> ''misc'' \<and>
   shard [(''AB'', 2 :: nat), (''1800SB01'', 1)]
     = [(''AB'', [(''AB'', 2)]), (''1800'', [(''1800SB01'', 1)])] \<and>
   prefix_of [] = ''misc'' \<and> prefix_of ''misc7'' = ''misc'' \<and>
   shard [([], 4 :: nat), (''misc7'', 5)] = [(''misc'', [([], 4), (''misc7'', 5)])]"
  by code_simp

end
